theory Spec2Isabelle
  imports Complex_Main "HOL-Library.Sublist" "HOL-Library.Char_ord" "HOL-Library.List_Lexorder"
begin

section \<open>Python values the two scripts compute with\<close>

text \<open>
  An exception is its class and the text \<open>str(e)\<close> gives. Only classes derived from
  \<open>Exception\<close> are modelled, so \<open>except Exception\<close> catches every value of this type;
  \<open>AssertionError\<close> is kept apart because \<open>validate_tpch\<close> catches it separately.
\<close>

datatype exc_class =
  AssertionError | ValueError | KeyError | TypeError | FileNotFoundError | OtherException

datatype exn = Exc exc_class string

fun exc_class_of :: "exn \<Rightarrow> exc_class" where
  "exc_class_of (Exc c m) = c"

fun py_str_exn :: "exn \<Rightarrow> string" where
  "py_str_exn (Exc c m) = m"

subsection \<open>Rendering integers\<close>

definition digit_char :: "nat \<Rightarrow> char" where
  "digit_char n = ''0123456789'' ! (n mod 10)"

function str_nat :: "nat \<Rightarrow> string" where
  "str_nat n = (if n < 10 then [digit_char n] else str_nat (n div 10) @ [digit_char (n mod 10)])"
  by pat_completeness auto
termination
  by (relation "measure id") auto

declare str_nat.simps [simp del]

text \<open>\<open>str(i)\<close> for a Python \<open>int\<close>.\<close>

definition str_int :: "int \<Rightarrow> string" where
  "str_int i = (if i < 0 then ''-'' @ str_nat (nat (- i)) else str_nat (nat i))"

text \<open>
  \<open>f"{q:02d}"\<close>: sign-aware zero padding to width two. A negative number already
  fills the width with its sign and first digit.
\<close>

definition fmt_02d :: "int \<Rightarrow> string" where
  "fmt_02d q = (if 0 \<le> q \<and> q < 10 then ''0'' @ str_int q else str_int q)"

subsection \<open>String methods\<close>

text \<open>\<open>s.strip(chars)\<close>: drop the characters of \<open>chars\<close> from both ends.\<close>

definition py_strip :: "string \<Rightarrow> string \<Rightarrow> string" where
  "py_strip chars s =
     rev (dropWhile (\<lambda>c. c \<in> set chars) (rev (dropWhile (\<lambda>c. c \<in> set chars) s)))"

text \<open>
  \<open>s.replace(old, new)\<close>: every occurrence of \<open>old\<close>, found from the left and not
  overlapping, becomes \<open>new\<close>; with an empty \<open>old\<close>, \<open>new\<close> goes before every character
  and at the end.
\<close>

function py_replace :: "string \<Rightarrow> string \<Rightarrow> string \<Rightarrow> string" where
  "py_replace old new [] = (if old = [] then new else [])"
| "py_replace old new (c # cs) =
     (if old = [] then new @ c # py_replace old new cs
      else if prefix old (c # cs) then new @ py_replace old new (drop (length old) (c # cs))
      else c # py_replace old new cs)"
  by pat_completeness auto
termination
  by (relation "measure (\<lambda>(old, new, s). length s)") auto

declare py_replace.simps [simp del]

text \<open>The newline character, and \<open>sep.join(parts)\<close>.\<close>

definition nl :: string where
  "nl = [CHR 0x0A]"

fun py_join :: "string \<Rightarrow> string list \<Rightarrow> string" where
  "py_join sep [] = []"
| "py_join sep [p] = p"
| "py_join sep (p # q # ps) = p @ sep @ py_join sep (q # ps)"

text \<open>
  \<open>template.format(name=name)\<close>, for the templates this model covers: text, the
  escapes \<open>{{\<close> and \<open>}}\<close>, the field \<open>{name}\<close>, and the two errors Python reports for a
  brace that stands alone. Any other replacement field (another name, an index, a
  conversion, a format specification) is outside the model, and the result is \<open>None\<close>.
  The scan is from the left, so the first offending brace decides.
\<close>

definition fmt_then :: "(string \<Rightarrow> string) \<Rightarrow> (exn + string) option \<Rightarrow> (exn + string) option" where
  "fmt_then f r = map_option (map_sum id f) r"

function format_name :: "string \<Rightarrow> string \<Rightarrow> (exn + string) option" where
  "format_name name [] = Some (Inr [])"
| "format_name name (c # cs) =
     (if c = CHR ''{'' then
        (if cs = [] then Some (Inl (Exc ValueError ''Single '{' encountered in format string''))
         else if hd cs = CHR ''{'' then fmt_then ((#) CHR ''{'') (format_name name (tl cs))
         else if prefix ''name}'' cs then fmt_then ((@) name) (format_name name (drop 5 cs))
         else None)
      else if c = CHR ''}'' then
        (if cs \<noteq> [] \<and> hd cs = CHR ''}'' then fmt_then ((#) CHR ''}'') (format_name name (tl cs))
         else Some (Inl (Exc ValueError ''Single '}' encountered in format string'')))
      else fmt_then ((#) c) (format_name name cs))"
  by pat_completeness auto
termination
  by (relation "measure (\<lambda>(name, s). length s)") auto

declare format_name.simps [simp del]

text \<open>Truthiness of an \<open>Optional[str]\<close>: neither \<open>None\<close> nor the empty string.\<close>

fun truthy :: "string option \<Rightarrow> bool" where
  "truthy None = False"
| "truthy (Some s) = (s \<noteq> [])"

text \<open>\<open>a or b\<close> on \<open>Optional[str]\<close> values.\<close>

definition py_or :: "string option \<Rightarrow> string option \<Rightarrow> string option" where
  "py_or a b = (if truthy a then a else b)"

text \<open>\<open>str(v)\<close> of an \<open>Optional[str]\<close>, as an f-string interpolates it.\<close>

fun str_opt :: "string option \<Rightarrow> string" where
  "str_opt None = ''None''"
| "str_opt (Some s) = s"

section \<open>bootstrap\_ducklake.py: configuration and statement builders\<close>

text \<open>
  The dataclasses, with the field types they declare. The field \<open>prefix\<close> of
  \<open>StorageMinIO\<close> is \<open>key_prefix\<close> here, since \<open>prefix\<close> is the list predicate.
\<close>

record MetadataDuckDB =
  file_path :: string

record StorageMinIO =
  bucket :: string
  key_prefix :: string
  endpoint :: string
  region :: string
  access_key :: "string option"
  secret_key :: "string option"
  use_ssl :: bool
  url_style :: string

record CatalogConfig =
  catalog_alias :: string

record TPCHConfig =
  default_scale :: int

record AppConfig =
  metadata :: MetadataDuckDB
  storage :: StorageMinIO
  catalog :: CatalogConfig
  tpch :: TPCHConfig

text \<open>A value between single quotes, as the statements embed it.\<close>

definition quoted :: "string \<Rightarrow> string" where
  "quoted s = [CHR 0x27] @ s @ [CHR 0x27]"

text \<open>\<open>MetadataDuckDB.attach_sql\<close>.\<close>

definition attach_sql :: "MetadataDuckDB \<Rightarrow> string \<Rightarrow> string \<Rightarrow> string" where
  "attach_sql self al data_path_v =
     ''ATTACH '' @ quoted (''ducklake:'' @ file_path self) @ '' AS '' @ al
     @ '' (DATA_PATH '' @ quoted data_path_v @ '');''"

text \<open>\<open>StorageMinIO.data_path\<close>.\<close>

definition data_path :: "StorageMinIO \<Rightarrow> string" where
  "data_path self =
     (let p = py_strip ''/'' (key_prefix self)
      in if p \<noteq> [] then ''s3://'' @ bucket self @ ''/'' @ p @ ''/''
         else ''s3://'' @ bucket self @ ''/'')"

text \<open>
  \<open>StorageMinIO.create_secret_sql\<close>. The lines after the first two are f-strings, so
  the field values are already in the text when \<open>format\<close> scans the joined lines for
  \<open>{name}\<close>.
\<close>

definition secret_parts :: "StorageMinIO \<Rightarrow> string list" where
  "secret_parts self =
     [''CREATE OR REPLACE SECRET {name} ('', ''  TYPE S3,'']
     @ (if truthy (access_key self) \<and> truthy (secret_key self)
        then [''  KEY_ID '' @ quoted (str_opt (access_key self)) @ '','',
              ''  SECRET '' @ quoted (str_opt (secret_key self)) @ '','']
        else [])
     @ [''  ENDPOINT ''
          @ quoted (py_replace ''https://'' [] (py_replace ''http://'' [] (endpoint self))) @ '','',
        ''  URL_STYLE '' @ quoted (url_style self) @ '','',
        ''  USE_SSL '' @ (if use_ssl self then ''true'' else ''false'') @ '','',
        ''  REGION '' @ quoted (region self),
        '');'']"

definition create_secret_sql :: "StorageMinIO \<Rightarrow> string \<Rightarrow> (exn + string) option" where
  "create_secret_sql self name = format_name name (py_join nl (secret_parts self))"

subsection \<open>The configuration document\<close>

text \<open>
  The parsed YAML document both scripts read. A section or a key may be missing
  (\<open>None\<close>). Where a key is present its value has the type the dataclass declares for
  it; the two credentials are \<open>Optional[str]\<close>, so a present key may also hold null
  (\<open>Some None\<close>).
\<close>

record metadata_doc =
  doc_duckdb_file :: "string option"

record storage_doc =
  doc_bucket :: "string option"
  doc_prefix :: "string option"
  doc_endpoint :: "string option"
  doc_region :: "string option"
  doc_access_key :: "string option option"
  doc_secret_key :: "string option option"
  doc_use_ssl :: "bool option"
  doc_url_style :: "string option"

record catalog_doc =
  doc_alias :: "string option"

record tpch_doc =
  doc_default_scale :: "int option"

record config_doc =
  sec_metadata :: "metadata_doc option"
  sec_storage :: "storage_doc option"
  sec_catalog :: "catalog_doc option"
  sec_tpch :: "tpch_doc option"

text \<open>The empty dictionary \<open>{}\<close> that \<open>d.get(section, {})\<close> falls back to.\<close>

definition empty_metadata :: metadata_doc where
  "empty_metadata = \<lparr>doc_duckdb_file = None\<rparr>"

definition empty_storage :: storage_doc where
  "empty_storage =
     \<lparr>doc_bucket = None, doc_prefix = None, doc_endpoint = None, doc_region = None,
      doc_access_key = None, doc_secret_key = None, doc_use_ssl = None, doc_url_style = None\<rparr>"

definition empty_catalog :: catalog_doc where
  "empty_catalog = \<lparr>doc_alias = None\<rparr>"

definition empty_tpch :: tpch_doc where
  "empty_tpch = \<lparr>doc_default_scale = None\<rparr>"

text \<open>\<open>dict.get(key, default)\<close>.\<close>

definition dict_get :: "'a option \<Rightarrow> 'a \<Rightarrow> 'a" where
  "dict_get v dflt = (case v of None \<Rightarrow> dflt | Some x \<Rightarrow> x)"

text \<open>\<open>dict[key]\<close>: a missing key raises \<open>KeyError\<close>, whose text is the key's \<open>repr\<close>.\<close>

definition dict_item :: "'a option \<Rightarrow> string \<Rightarrow> exn + 'a" where
  "dict_item v key = (case v of None \<Rightarrow> Inl (Exc KeyError (quoted key)) | Some x \<Rightarrow> Inr x)"

text \<open>
  \<open>AppConfig.from_dict\<close>; \<open>getenv\<close> is \<open>os.getenv\<close>. A credential key that is present
  decides, whatever it holds; only a missing key falls back to the environment.
\<close>

definition from_dict :: "config_doc \<Rightarrow> (string \<Rightarrow> string option) \<Rightarrow> exn + AppConfig" where
  "from_dict d getenv =
     (let md = dict_get (sec_metadata d) empty_metadata;
          st = dict_get (sec_storage d) empty_storage;
          cg = dict_get (sec_catalog d) empty_catalog;
          tp = dict_get (sec_tpch d) empty_tpch;
          storage_v =
            \<lparr>bucket = dict_get (doc_bucket st) ''ducklake-data'',
             key_prefix = dict_get (doc_prefix st) ''tpch/'',
             endpoint = dict_get (doc_endpoint st) ''http://localhost:9000'',
             region = dict_get (doc_region st) ''us-east-1'',
             access_key = dict_get (doc_access_key st) (getenv ''MINIO_ACCESS_KEY''),
             secret_key = dict_get (doc_secret_key st)
               (py_or (getenv ''MINIO_SECRET_KEY'') (getenv ''MINIO_SECRET_ACCESS_KEY'')),
             use_ssl = dict_get (doc_use_ssl st) False,
             url_style = dict_get (doc_url_style st) ''path''\<rparr>
      in if \<not> truthy (access_key storage_v) then
           Inl (Exc ValueError
             ''storage.access_key is required but was not provided in config or environment variables'')
         else if \<not> truthy (secret_key storage_v) then
           Inl (Exc ValueError
             ''storage.secret_key is required but was not provided in config or environment variables'')
         else
           Inr \<lparr>metadata = \<lparr>file_path = dict_get (doc_duckdb_file md) ''./metadata.ducklake''\<rparr>,
                storage = storage_v,
                catalog = \<lparr>catalog_alias = dict_get (doc_alias cg) ''my_ducklake''\<rparr>,
                tpch = \<lparr>default_scale = dict_get (doc_default_scale tp) 1\<rparr>\<rparr>)"

section \<open>Query results\<close>

text \<open>
  A pandas \<open>DataFrame\<close> as \<open>fetch_df\<close> returns it: a default row index of \<open>nrows\<close>
  positions and the columns in result order, each a label with its cells. Numbers are
  exact; floating-point rounding is not modelled.
\<close>

datatype cell = Num real | Text string | Null

record frame =
  nrows :: nat
  cols :: "(string \<times> cell list) list"

text \<open>\<open>list(df.columns)\<close> and \<open>len(df)\<close>.\<close>

definition frame_columns :: "frame \<Rightarrow> string list" where
  "frame_columns df = map fst (cols df)"

definition frame_len :: "frame \<Rightarrow> nat" where
  "frame_len df = nrows df"

text \<open>\<open>df.sort_index(axis=1)\<close>: the columns ordered by label.\<close>

definition sort_index_axis1 :: "frame \<Rightarrow> frame" where
  "sort_index_axis1 df = df\<lparr>cols := sort_key fst (cols df)\<rparr>"

text \<open>One entry of \<open>summary\<close>: the keys \<open>query\<close>, \<open>match\<close> and \<open>reason\<close>.\<close>

record summary_row =
  row_query :: string
  row_match :: bool
  row_reason :: string

section \<open>The world outside the scripts\<close>

text \<open>
  The engine, the file system and the network are not part of the repository. Every
  call the scripts make to them is an event, appended to a trace in the order the calls
  are made; what the call answers is given by a \<open>world\<close>, which may look at the trace so
  far, so an engine with state is covered. Console output is not modelled.
\<close>

datatype conn = BootstrapCon | LakeCon | RefCon

datatype event =
    MakeDirs string
  | Connect conn string
  | Execute conn string
  | PathExists string
  | UrlRetrieve string string
  | Mkdir string
  | ToCsv string frame
  | SummaryToCsv string "summary_row list"

type_synonym trace = "event list"

text \<open>
  \<open>fails\<close>: the exception a call raises, if any. \<open>fetch_df\<close> and \<open>fetchone\<close>: what
  \<open>con.execute(sql).fetch_df()\<close> and \<open>con.execute(sql).fetchone()\<close> give for a query with
  one text column (\<open>None\<close> when there is no row). \<open>assert_frame_equal\<close> is
  \<open>pd.testing.assert_frame_equal(left, right, atol=1e-6, check_dtype=False,
  check_like=True)\<close>: the exception it raises, if any.
\<close>

record world =
  fails :: "trace \<Rightarrow> event \<Rightarrow> exn option"
  fetch_df :: "trace \<Rightarrow> conn \<Rightarrow> string \<Rightarrow> exn + frame"
  fetchone :: "trace \<Rightarrow> conn \<Rightarrow> string \<Rightarrow> exn + string option"
  path_exists :: "trace \<Rightarrow> string \<Rightarrow> bool"
  abspath :: "string \<Rightarrow> string"
  assert_frame_equal :: "frame \<Rightarrow> frame \<Rightarrow> exn option"

text \<open>One call, and a run of calls that stops at the first exception.\<close>

definition perform :: "world \<Rightarrow> event \<Rightarrow> trace \<Rightarrow> exn option \<times> trace" where
  "perform w ev tr = (fails w tr ev, tr @ [ev])"

fun perform_all :: "world \<Rightarrow> event list \<Rightarrow> trace \<Rightarrow> exn option \<times> trace" where
  "perform_all w [] tr = (None, tr)"
| "perform_all w (ev # evs) tr =
     (case fails w tr ev of
        Some e \<Rightarrow> (Some e, tr @ [ev])
      | None \<Rightarrow> perform_all w evs (tr @ [ev]))"

text \<open>\<open>os.path.dirname(p) or "."\<close>.\<close>

definition py_dirname :: "string \<Rightarrow> string" where
  "py_dirname p =
     (let head = rev (dropWhile (\<lambda>c. c \<noteq> CHR ''/'') (rev p))
      in if filter (\<lambda>c. c \<noteq> CHR ''/'') head \<noteq> []
         then rev (dropWhile (\<lambda>c. c = CHR ''/'') (rev head))
         else head)"

definition dirname_or_dot :: "string \<Rightarrow> string" where
  "dirname_or_dot p = (if py_dirname p = [] then ''.'' else py_dirname p)"

section \<open>bootstrap\_ducklake.py: sessions, attach and bulk load\<close>

text \<open>\<open>open_duckdb_for_session\<close>; the connection it returns is \<open>BootstrapCon\<close>.\<close>

definition open_duckdb_for_session :: "world \<Rightarrow> AppConfig \<Rightarrow> trace \<Rightarrow> exn option \<times> trace" where
  "open_duckdb_for_session w cfg tr =
     perform_all w
       [MakeDirs (dirname_or_dot (file_path (metadata cfg))),
        Connect BootstrapCon (file_path (metadata cfg)),
        Execute BootstrapCon ''INSTALL httpfs; LOAD httpfs;'',
        Execute BootstrapCon ''INSTALL aws; LOAD aws;'',
        Execute BootstrapCon ''INSTALL ducklake; LOAD ducklake;'',
        Execute BootstrapCon ''INSTALL tpch; LOAD tpch;''] tr"

text \<open>
  \<open>attach_ducklake\<close>, with \<open>ensure_minio_secret\<close> inlined. The result is \<open>None\<close> where
  \<open>create_secret_sql\<close> is outside the modelled templates.
\<close>

definition attach_ducklake ::
  "world \<Rightarrow> conn \<Rightarrow> AppConfig \<Rightarrow> trace \<Rightarrow> (exn option \<times> trace) option" where
  "attach_ducklake w con cfg tr =
     (case perform w (MakeDirs (dirname_or_dot (abspath w (file_path (metadata cfg))))) tr of
        (Some e, tr1) \<Rightarrow> Some (Some e, tr1)
      | (None, tr1) \<Rightarrow>
          (case create_secret_sql (storage cfg) ''minio'' of
             None \<Rightarrow> None
           | Some (Inl e) \<Rightarrow> Some (Some e, tr1)
           | Some (Inr sql) \<Rightarrow>
               Some (perform_all w
                 [Execute con sql,
                  Execute con (attach_sql (metadata cfg) (catalog_alias (catalog cfg))
                                 (data_path (storage cfg))),
                  Execute con (''USE '' @ catalog_alias (catalog cfg) @ '';'')] tr1)))"

text \<open>
  \<open>generate_tpch_and_load\<close>: the download when the cache file is missing, then the
  three statements, one after the other with no handler around them.
\<close>

definition tpch_url :: "int \<Rightarrow> string" where
  "tpch_url scale = ''https://blobs.duckdb.org/data/tpch-sf'' @ str_int scale @ ''.db''"

definition tpch_local_db :: "int \<Rightarrow> string" where
  "tpch_local_db scale = ''tpch-sf'' @ str_int scale @ ''.duckdb''"

definition attach_src_sql :: "int \<Rightarrow> string" where
  "attach_src_sql scale = ''ATTACH '' @ quoted (tpch_local_db scale) @ '' AS tpch_src;''"

definition copy_sql :: "string \<Rightarrow> string" where
  "copy_sql ducklake_alias = ''COPY FROM DATABASE tpch_src TO '' @ ducklake_alias @ '';''"

definition detach_sql :: string where
  "detach_sql = ''DETACH DATABASE tpch_src;''"

text \<open>Lines 162 to 167: the download, only when the cache file is missing.\<close>

definition ensure_cached :: "world \<Rightarrow> int \<Rightarrow> trace \<Rightarrow> exn option \<times> trace" where
  "ensure_cached w scale tr =
     (let local_db = tpch_local_db scale; tr1 = tr @ [PathExists local_db]
      in if \<not> path_exists w tr local_db
         then perform w (UrlRetrieve (tpch_url scale) local_db) tr1
         else (None, tr1))"

definition generate_tpch_and_load ::
  "world \<Rightarrow> conn \<Rightarrow> int \<Rightarrow> string \<Rightarrow> trace \<Rightarrow> exn option \<times> trace" where
  "generate_tpch_and_load w con scale ducklake_alias tr =
     (case ensure_cached w scale tr of
        (Some e, tr1) \<Rightarrow> (Some e, tr1)
      | (None, tr1) \<Rightarrow>
          perform_all w
            [Execute con (attach_src_sql scale),
             Execute con (copy_sql ducklake_alias),
             Execute con detach_sql] tr1)"

text \<open>
  \<open>cmd_attach\<close> and \<open>cmd_load_tpch\<close>, from the parsed document on: \<open>load_config\<close> hands
  it to \<open>from_dict\<close> before anything else is called.
\<close>

definition cmd_attach ::
  "world \<Rightarrow> config_doc \<Rightarrow> (string \<Rightarrow> string option) \<Rightarrow> trace \<Rightarrow> (exn option \<times> trace) option" where
  "cmd_attach w d getenv tr =
     (case from_dict d getenv of
        Inl e \<Rightarrow> Some (Some e, tr)
      | Inr cfg \<Rightarrow>
          (case open_duckdb_for_session w cfg tr of
             (Some e, tr1) \<Rightarrow> Some (Some e, tr1)
           | (None, tr1) \<Rightarrow>
               (case attach_ducklake w BootstrapCon cfg tr1 of
                  None \<Rightarrow> None
                | Some (Some e, tr2) \<Rightarrow> Some (Some e, tr2)
                | Some (None, tr2) \<Rightarrow>
                    Some (perform w
                      (Execute BootstrapCon ''CREATE TABLE IF NOT EXISTS bootstrap_check(x INTEGER);'')
                      tr2))))"

text \<open>
  The table counts at the end of \<open>cmd_load_tpch\<close> are printed only, and a count that
  fails is caught and printed too: each is a call whose answer changes nothing.
\<close>

definition count_events :: "conn \<Rightarrow> event list" where
  "count_events con =
     map (\<lambda>t. Execute con (''SELECT COUNT(*) FROM '' @ t @ '';''))
       [''region'', ''nation'', ''customer'', ''orders'', ''lineitem'']"

text \<open>\<open>args.scale or cfg.tpch.default_scale\<close>: a missing or zero \<open>--scale\<close> gives the default.\<close>

definition scale_or_default :: "int option \<Rightarrow> int \<Rightarrow> int" where
  "scale_or_default arg dflt = (case arg of None \<Rightarrow> dflt | Some n \<Rightarrow> if n = 0 then dflt else n)"

definition cmd_load_tpch ::
  "world \<Rightarrow> config_doc \<Rightarrow> (string \<Rightarrow> string option) \<Rightarrow> int option \<Rightarrow> trace
     \<Rightarrow> (exn option \<times> trace) option" where
  "cmd_load_tpch w d getenv scale_arg tr =
     (case from_dict d getenv of
        Inl e \<Rightarrow> Some (Some e, tr)
      | Inr cfg \<Rightarrow>
          (case open_duckdb_for_session w cfg tr of
             (Some e, tr1) \<Rightarrow> Some (Some e, tr1)
           | (None, tr1) \<Rightarrow>
               (case attach_ducklake w BootstrapCon cfg tr1 of
                  None \<Rightarrow> None
                | Some (Some e, tr2) \<Rightarrow> Some (Some e, tr2)
                | Some (None, tr2) \<Rightarrow>
                    (case generate_tpch_and_load w BootstrapCon
                            (scale_or_default scale_arg (default_scale (tpch cfg)))
                            (catalog_alias (catalog cfg)) tr2 of
                       (Some e, tr3) \<Rightarrow> Some (Some e, tr3)
                     | (None, tr3) \<Rightarrow> Some (None, tr3 @ count_events BootstrapCon)))))"

section \<open>run\_tpch\_queries.py: the validator\<close>

text \<open>
  \<open>open_ducklake\<close>. The three lookups at the top come first; the secret statement is an
  f-string evaluated when its \<open>execute\<close> is reached, so a missing \<open>endpoint\<close> raises after
  the extensions are loaded. The connection it returns is \<open>LakeCon\<close>.
\<close>

definition validator_data_path :: "string \<Rightarrow> string \<Rightarrow> string" where
  "validator_data_path bucket_v prefix_v = ''s3://'' @ bucket_v @ ''/'' @ prefix_v"

definition validator_secret_sql :: "storage_doc \<Rightarrow> string \<Rightarrow> string" where
  "validator_secret_sql st endpoint_v =
     nl @ ''        CREATE OR REPLACE SECRET minio ('' @ nl
     @ ''          TYPE S3,'' @ nl
     @ ''          KEY_ID '' @ quoted (str_opt (dict_get (doc_access_key st) (Some ''minioadmin''))) @ '','' @ nl
     @ ''          SECRET '' @ quoted (str_opt (dict_get (doc_secret_key st) (Some ''minioadmin''))) @ '','' @ nl
     @ ''          ENDPOINT '' @ quoted (py_replace ''https://'' [] (py_replace ''http://'' [] endpoint_v)) @ '','' @ nl
     @ ''          URL_STYLE '' @ quoted (dict_get (doc_url_style st) ''path'') @ '','' @ nl
     @ ''          USE_SSL '' @ (if dict_get (doc_use_ssl st) False then ''true'' else ''false'') @ '','' @ nl
     @ ''          REGION '' @ quoted (dict_get (doc_region st) ''us-east-1'') @ nl
     @ ''        );'' @ nl
     @ ''    ''"

definition open_ducklake :: "world \<Rightarrow> config_doc \<Rightarrow> trace \<Rightarrow> exn option \<times> trace" where
  "open_ducklake w cfg tr =
     (case dict_item (sec_metadata cfg) ''metadata'' of Inl e \<Rightarrow> (Some e, tr) | Inr md \<Rightarrow>
     (case dict_item (doc_duckdb_file md) ''duckdb_file'' of Inl e \<Rightarrow> (Some e, tr) | Inr db_path \<Rightarrow>
     (case dict_item (sec_storage cfg) ''storage'' of Inl e \<Rightarrow> (Some e, tr) | Inr st \<Rightarrow>
     (case dict_item (doc_bucket st) ''bucket'' of Inl e \<Rightarrow> (Some e, tr) | Inr bucket_v \<Rightarrow>
     (case dict_item (doc_prefix st) ''prefix'' of Inl e \<Rightarrow> (Some e, tr) | Inr prefix_v \<Rightarrow>
     (case dict_item (sec_catalog cfg) ''catalog'' of Inl e \<Rightarrow> (Some e, tr) | Inr cg \<Rightarrow>
     (case dict_item (doc_alias cg) ''alias'' of Inl e \<Rightarrow> (Some e, tr) | Inr alias_v \<Rightarrow>
     (case perform_all w
             [Connect LakeCon '':memory:'',
              Execute LakeCon ''INSTALL httpfs; LOAD httpfs;'',
              Execute LakeCon ''INSTALL aws; LOAD aws;'',
              Execute LakeCon ''INSTALL ducklake; LOAD ducklake;''] tr of
        (Some e, tr1) \<Rightarrow> (Some e, tr1)
      | (None, tr1) \<Rightarrow>
     (case dict_item (doc_endpoint st) ''endpoint'' of Inl e \<Rightarrow> (Some e, tr1) | Inr endpoint_v \<Rightarrow>
        perform_all w
          [Execute LakeCon (validator_secret_sql st endpoint_v),
           Execute LakeCon (''ATTACH '' @ quoted (''ducklake:'' @ db_path) @ '' AS '' @ alias_v
                            @ '' (DATA_PATH '' @ quoted (validator_data_path bucket_v prefix_v) @ '');''),
           Execute LakeCon (''USE '' @ alias_v @ '';'')] tr1)))))))))"

text \<open>\<open>open_reference\<close>; the connection it returns is \<open>RefCon\<close>.\<close>

definition not_found_text :: "string \<Rightarrow> string" where
  "not_found_text local_db =
     local_db @ '' not found '' @ [CHR 0xE2, CHR 0x80, CHR 0x94]
     @ '' run bootstrap/load first to download it.''"

definition open_reference :: "world \<Rightarrow> int \<Rightarrow> trace \<Rightarrow> exn option \<times> trace" where
  "open_reference w scale tr =
     (let local_db = tpch_local_db scale; tr1 = tr @ [PathExists local_db]
      in if \<not> path_exists w tr local_db
         then (Some (Exc FileNotFoundError (not_found_text local_db)), tr1)
         else perform_all w
                [Connect RefCon '':memory:'',
                 Execute RefCon ''INSTALL tpch; LOAD tpch;'',
                 Execute RefCon (''ATTACH '' @ quoted local_db @ '' AS tpch_ref;'')] tr1)"

subsection \<open>One query\<close>

text \<open>
  Lines 65 to 67 of \<open>validate_tpch\<close>: the query text is fetched before the \<open>try\<close>
  statement is entered. \<open>fetchone()\<close> gives \<open>None\<close> when there is no row, and \<open>None[0]\<close>
  raises \<open>TypeError\<close>.
\<close>

definition query_text_sql :: "int \<Rightarrow> string" where
  "query_text_sql q = ''SELECT query FROM tpch_queries() WHERE query_nr='' @ str_int q @ '';''"

definition fetch_query_text :: "world \<Rightarrow> int \<Rightarrow> trace \<Rightarrow> (exn + string) \<times> trace" where
  "fetch_query_text w q tr =
     (case fetchone w tr LakeCon (query_text_sql q) of
        Inl e \<Rightarrow> Inl e
      | Inr None \<Rightarrow> Inl (Exc TypeError (quoted ''NoneType'' @ '' object is not subscriptable''))
      | Inr (Some sql) \<Rightarrow> Inr sql,
      tr @ [Execute LakeCon (query_text_sql q)])"

text \<open>\<open>con.execute(sql).fetch_df()\<close>.\<close>

definition query_df :: "world \<Rightarrow> conn \<Rightarrow> string \<Rightarrow> trace \<Rightarrow> (exn + frame) \<times> trace" where
  "query_df w con sql tr = (fetch_df w tr con sql, tr @ [Execute con sql])"

text \<open>Lines 71 to 74: both executions, each after selecting its namespace.\<close>

definition run_both ::
  "world \<Rightarrow> config_doc \<Rightarrow> string \<Rightarrow> trace \<Rightarrow> (exn + frame \<times> frame) \<times> trace" where
  "run_both w cfg sql tr =
     (case perform w (Execute RefCon ''USE tpch_ref;'') tr of
        (Some e, tr1) \<Rightarrow> (Inl e, tr1)
      | (None, tr1) \<Rightarrow>
     (case query_df w RefCon sql tr1 of
        (Inl e, tr2) \<Rightarrow> (Inl e, tr2)
      | (Inr df_ref, tr2) \<Rightarrow>
     (case dict_item (sec_catalog cfg) ''catalog'' of Inl e \<Rightarrow> (Inl e, tr2) | Inr cg \<Rightarrow>
     (case dict_item (doc_alias cg) ''alias'' of Inl e \<Rightarrow> (Inl e, tr2) | Inr alias_v \<Rightarrow>
     (case perform w (Execute LakeCon (''USE '' @ alias_v @ '';'')) tr2 of
        (Some e, tr3) \<Rightarrow> (Inl e, tr3)
      | (None, tr3) \<Rightarrow>
     (case query_df w LakeCon sql tr3 of
        (Inl e, tr4) \<Rightarrow> (Inl e, tr4)
      | (Inr df_dl, tr4) \<Rightarrow> (Inr (df_ref, df_dl), tr4)))))))"

text \<open>
  Lines 76 to 92, the classification: the pair \<open>(match, reason)\<close>, or the exception
  that leaves the inner \<open>try\<close> (anything \<open>assert_frame_equal\<close> raises that is not an
  \<open>AssertionError\<close>).
\<close>

definition row_count_reason :: "nat \<Rightarrow> nat \<Rightarrow> string" where
  "row_count_reason a b =
     ''Row count mismatch ('' @ str_int (int a) @ '' vs '' @ str_int (int b) @ '')''"

definition classify :: "world \<Rightarrow> frame \<Rightarrow> frame \<Rightarrow> exn + bool \<times> string" where
  "classify w df_ref df_dl =
     (if frame_columns df_ref \<noteq> frame_columns df_dl then Inr (False, ''Column mismatch'')
      else if frame_len df_ref \<noteq> frame_len df_dl
        then Inr (False, row_count_reason (frame_len df_ref) (frame_len df_dl))
      else
        (case assert_frame_equal w (sort_index_axis1 df_ref) (sort_index_axis1 df_dl) of
           None \<Rightarrow> Inr (True, [])
         | Some e \<Rightarrow>
             if exc_class_of e = AssertionError then Inr (False, ''Data mismatch'') else Inl e))"

text \<open>The two artifact files of a query, and the label of its summary row.\<close>

definition ref_csv :: "int \<Rightarrow> string" where
  "ref_csv q = ''tpch_validation/q'' @ fmt_02d q @ ''_ref.csv''"

definition ducklake_csv :: "int \<Rightarrow> string" where
  "ducklake_csv q = ''tpch_validation/q'' @ fmt_02d q @ ''_ducklake.csv''"

definition query_label :: "int \<Rightarrow> string" where
  "query_label q = ''Q'' @ fmt_02d q"

text \<open>
  Lines 71 to 92 together: what the executions and the classification give, or the
  exception one of them raises.
\<close>

definition execute_and_classify ::
  "world \<Rightarrow> config_doc \<Rightarrow> string \<Rightarrow> trace
     \<Rightarrow> (exn + frame \<times> frame \<times> bool \<times> string) \<times> trace" where
  "execute_and_classify w cfg sql tr =
     (case run_both w cfg sql tr of
        (Inl e, tr1) \<Rightarrow> (Inl e, tr1)
      | (Inr (df_ref, df_dl), tr1) \<Rightarrow>
          (case classify w df_ref df_dl of
             Inl e \<Rightarrow> (Inl e, tr1)
           | Inr (match, reason) \<Rightarrow> (Inr (df_ref, df_dl, match, reason), tr1)))"

text \<open>
  Lines 71 to 99, the body of the \<open>try\<close> statement: the exception that leaves it, if
  any, with the summary and the trace as they are at that moment. The row of a
  classified query is appended before the artifacts are written.
\<close>

definition try_body ::
  "world \<Rightarrow> config_doc \<Rightarrow> int \<Rightarrow> string \<Rightarrow> summary_row list \<Rightarrow> trace
     \<Rightarrow> exn option \<times> summary_row list \<times> trace" where
  "try_body w cfg q sql summary tr =
     (case execute_and_classify w cfg sql tr of
        (Inl e, tr1) \<Rightarrow> (Some e, summary, tr1)
      | (Inr (df_ref, df_dl, match, reason), tr1) \<Rightarrow>
          (let summary1 = summary @ [\<lparr>row_query = query_label q, row_match = match,
                                       row_reason = reason\<rparr>]
           in if \<not> match then
                (case perform_all w
                        [ToCsv (ref_csv q) df_ref, ToCsv (ducklake_csv q) df_dl] tr1 of
                   (r, tr2) \<Rightarrow> (r, summary1, tr2))
              else (None, summary1, tr1)))"

text \<open>
  Lines 65 to 103, one turn of the loop: an exception while fetching the text leaves
  the function (\<open>Inl\<close>); an exception inside \<open>try\<close> becomes a row.
\<close>

definition validate_one ::
  "world \<Rightarrow> config_doc \<Rightarrow> int \<Rightarrow> summary_row list \<Rightarrow> trace
     \<Rightarrow> (exn + summary_row list) \<times> trace" where
  "validate_one w cfg q summary tr =
     (case fetch_query_text w q tr of
        (Inl e, tr0) \<Rightarrow> (Inl e, tr0)
      | (Inr sql, tr0) \<Rightarrow>
          (case try_body w cfg q sql summary tr0 of
             (None, summary1, tr1) \<Rightarrow> (Inr summary1, tr1)
           | (Some e, summary1, tr1) \<Rightarrow>
               (Inr (summary1 @ [\<lparr>row_query = query_label q, row_match = False,
                                   row_reason = py_str_exn e\<rparr>]), tr1)))"

subsection \<open>The loop and the whole run\<close>

fun validate_loop ::
  "world \<Rightarrow> config_doc \<Rightarrow> int list \<Rightarrow> summary_row list \<Rightarrow> trace
     \<Rightarrow> (exn + summary_row list) \<times> trace" where
  "validate_loop w cfg [] summary tr = (Inr summary, tr)"
| "validate_loop w cfg (q # qs) summary tr =
     (case validate_one w cfg q summary tr of
        (Inl e, tr1) \<Rightarrow> (Inl e, tr1)
      | (Inr summary1, tr1) \<Rightarrow> validate_loop w cfg qs summary1 tr1)"

text \<open>\<open>validate_tpch\<close>; an empty \<open>query_ids\<close> stands for the default \<open>range(1, 23)\<close>.\<close>

definition validate_tpch ::
  "world \<Rightarrow> config_doc \<Rightarrow> int \<Rightarrow> int list \<Rightarrow> trace \<Rightarrow> exn option \<times> trace" where
  "validate_tpch w cfg scale query_ids tr =
     (let ids = (if query_ids = [] then [1..22] else query_ids)
      in (case open_ducklake w cfg tr of
            (Some e, tr1) \<Rightarrow> (Some e, tr1)
          | (None, tr1) \<Rightarrow>
         (case open_reference w scale tr1 of
            (Some e, tr2) \<Rightarrow> (Some e, tr2)
          | (None, tr2) \<Rightarrow>
         (case perform w (Mkdir ''tpch_validation'') tr2 of
            (Some e, tr3) \<Rightarrow> (Some e, tr3)
          | (None, tr3) \<Rightarrow>
         (case validate_loop w cfg ids [] tr3 of
            (Inl e, tr4) \<Rightarrow> (Some e, tr4)
          | (Inr summary, tr4) \<Rightarrow>
              perform w (SummaryToCsv ''tpch_validation/validation_summary.csv'' summary) tr4)))))"

section \<open>Notions the properties are stated with\<close>

text \<open>The artifact dumps among the events of a trace.\<close>

fun is_artifact :: "event \<Rightarrow> bool" where
  "is_artifact (ToCsv p df) = True"
| "is_artifact ev = False"

definition artifact_events :: "trace \<Rightarrow> event list" where
  "artifact_events tr = filter is_artifact tr"

text \<open>A value in which \<open>format\<close> finds nothing to interpret.\<close>

definition no_braces :: "string \<Rightarrow> bool" where
  "no_braces s = (CHR ''{'' \<notin> set s \<and> CHR ''}'' \<notin> set s)"

text \<open>
  A credential source that is either absent or holds a non-empty value: a key of the
  document, and an environment variable.
\<close>

definition key_absent_or_value :: "string option option \<Rightarrow> bool" where
  "key_absent_or_value k = (case k of None \<Rightarrow> True | Some v \<Rightarrow> truthy v)"

definition env_absent_or_value :: "string option \<Rightarrow> bool" where
  "env_absent_or_value v = (case v of None \<Rightarrow> True | Some s \<Rightarrow> s \<noteq> [])"

text \<open>
  The specification's precedence for one credential: the explicit value of the
  configuration key, else what the environment gives.
\<close>

definition explicit_else :: "string option option \<Rightarrow> string option \<Rightarrow> string option" where
  "explicit_else k from_env = (case k of Some (Some v) \<Rightarrow> Some v | _ \<Rightarrow> from_env)"

text \<open>
  The specification's reading of the endpoint in the secret statement: a scheme at
  the front is removed, and nothing else.
\<close>

definition spec_strip_scheme :: "string \<Rightarrow> string" where
  "spec_strip_scheme e =
     (if prefix ''http://'' e then drop 7 e
      else if prefix ''https://'' e then drop 8 e
      else e)"

text \<open>
  Modelled from the spec: \<open>pandas.testing.assert_frame_equal\<close> is a library function
  and not part of the repository. The specification has it compare the two tables
  column by column, after the columns are sorted by name, with numeric tolerance
  \<open>1e-6\<close> and relaxed dtype checking. Two cells agree when both are numbers (of an
  integer or a floating-point column alike) no further apart than the tolerance, or
  equal texts, or both null.
\<close>

fun cell_close :: "cell \<Rightarrow> cell \<Rightarrow> bool" where
  "cell_close (Num a) (Num b) = (\<bar>a - b\<bar> \<le> 1 / 1000000)"
| "cell_close (Text s) (Text t) = (s = t)"
| "cell_close Null Null = True"
| "cell_close x y = False"

text \<open>
  Modelled from the spec: two columns agree when they carry the same label and their
  cells agree row by row (rows are matched by index label, which for the default
  indexes of two query results is the position).
\<close>

definition column_close :: "string \<times> cell list \<Rightarrow> string \<times> cell list \<Rightarrow> bool" where
  "column_close l r = (fst l = fst r \<and> list_all2 cell_close (snd l) (snd r))"

text \<open>
  Modelled from the spec: two tables agree when they have as many rows and their
  columns agree one by one, in the order given.
\<close>

definition spec_frames_close :: "frame \<Rightarrow> frame \<Rightarrow> bool" where
  "spec_frames_close l r = (nrows l = nrows r \<and> list_all2 column_close (cols l) (cols r))"

text \<open>
  Modelled from the spec: \<open>assert_frame_equal\<close> raises \<open>AssertionError\<close> when the tables
  do not agree and returns otherwise.
\<close>

definition spec_assert_frame_equal :: "frame \<Rightarrow> frame \<Rightarrow> exn option" where
  "spec_assert_frame_equal l r =
     (if spec_frames_close l r then None
      else Some (Exc AssertionError ''DataFrame are different''))"

section \<open>Concrete worlds, documents and results\<close>

text \<open>A world in which no call fails, every query has a text and every result is empty.\<close>

definition empty_frame :: frame where
  "empty_frame = \<lparr>nrows = 0, cols = []\<rparr>"

definition quiet_world :: world where
  "quiet_world =
     \<lparr>fails = (\<lambda>tr ev. None),
      fetch_df = (\<lambda>tr con sql. Inr empty_frame),
      fetchone = (\<lambda>tr con sql. Inr (Some sql)),
      path_exists = (\<lambda>tr p. True),
      abspath = (\<lambda>p. p),
      assert_frame_equal = (\<lambda>l r. None)\<rparr>"

text \<open>The bulk copy is refused (the catalog already holds the tables).\<close>

definition copy_error :: exn where
  "copy_error = Exc OtherException ''Catalog Error: Table with name region already exists!''"

definition copy_fails_world :: world where
  "copy_fails_world =
     quiet_world\<lparr>fails := (\<lambda>tr ev.
        if ev = Execute BootstrapCon (copy_sql ''my_ducklake'') then Some copy_error else None)\<rparr>"

text \<open>
  The query generator is not available on the lakehouse session (\<open>open_ducklake\<close> does
  not load it): every fetch of a query text raises.
\<close>

definition no_generator_error :: exn where
  "no_generator_error =
     Exc OtherException ''Catalog Error: Table Function with name tpch_queries does not exist!''"

definition no_generator_world :: world where
  "no_generator_world = quiet_world\<lparr>fetchone := (\<lambda>tr con sql. Inl no_generator_error)\<rparr>"

text \<open>The query generator has no query 23: \<open>fetchone()\<close> gives \<open>None\<close> for it.\<close>

definition no_row_world :: world where
  "no_row_world =
     quiet_world\<lparr>fetchone := (\<lambda>tr con sql.
        if sql = query_text_sql 23 then Inr None else Inr (Some sql))\<rparr>"

text \<open>Query 2 fails on the lakehouse side: a table is missing there.\<close>

definition missing_table_error :: exn where
  "missing_table_error = Exc OtherException ''Catalog Error: Table with name lineitem does not exist!''"

definition missing_table_world :: world where
  "missing_table_world =
     quiet_world\<lparr>fetch_df := (\<lambda>tr con sql.
        if con = LakeCon \<and> sql = query_text_sql 2 then Inl missing_table_error
        else Inr empty_frame)\<rparr>"

text \<open>The starter document that \<open>init-config\<close> writes: it holds no credentials.\<close>

definition starter_doc :: config_doc where
  "starter_doc =
     \<lparr>sec_metadata = Some \<lparr>doc_duckdb_file = Some ''./metadata.ducklake''\<rparr>,
      sec_storage = Some
        \<lparr>doc_bucket = Some ''ducklake-data'', doc_prefix = Some ''tpch/'',
         doc_endpoint = Some ''http://localhost:9000'', doc_region = Some ''us-east-1'',
         doc_access_key = None, doc_secret_key = None,
         doc_use_ssl = Some False, doc_url_style = Some ''path''\<rparr>,
      sec_catalog = Some \<lparr>doc_alias = Some ''my_ducklake''\<rparr>,
      sec_tpch = Some \<lparr>doc_default_scale = Some 1\<rparr>\<rparr>"

text \<open>The starter document with the key \<open>access_key\<close> present and left blank.\<close>

definition blank_key_doc :: config_doc where
  "blank_key_doc =
     starter_doc\<lparr>sec_storage :=
       Some ((the (sec_storage starter_doc))\<lparr>doc_access_key := Some None\<rparr>)\<rparr>"

text \<open>The starter document with an explicit \<open>access_key\<close>.\<close>

definition explicit_key_doc :: config_doc where
  "explicit_key_doc =
     starter_doc\<lparr>sec_storage :=
       Some ((the (sec_storage starter_doc))\<lparr>doc_access_key := Some (Some ''config-key'')\<rparr>)\<rparr>"

definition no_env :: "string \<Rightarrow> string option" where
  "no_env var = None"

definition minio_env :: "string \<Rightarrow> string option" where
  "minio_env var =
     (if var = ''MINIO_ACCESS_KEY'' then Some ''minioadmin''
      else if var = ''MINIO_SECRET_ACCESS_KEY'' then Some ''minio-secret''
      else None)"

text \<open>A storage section as \<open>from_dict\<close> builds it, with the fields left open that vary.\<close>

definition local_storage :: "string \<Rightarrow> string \<Rightarrow> StorageMinIO" where
  "local_storage prefix_v endpoint_v =
     \<lparr>bucket = ''ducklake-data'', key_prefix = prefix_v, endpoint = endpoint_v,
      region = ''us-east-1'', access_key = Some ''minioadmin'', secret_key = Some ''minio-secret'',
      use_ssl = False, url_style = ''path''\<rparr>"

text \<open>The configuration \<open>from_dict\<close> builds from the starter document and that environment.\<close>

definition starter_config :: AppConfig where
  "starter_config =
     \<lparr>metadata = \<lparr>file_path = ''./metadata.ducklake''\<rparr>,
      storage = local_storage ''tpch/'' ''http://localhost:9000'',
      catalog = \<lparr>catalog_alias = ''my_ducklake''\<rparr>,
      tpch = \<lparr>default_scale = 1\<rparr>\<rparr>"

text \<open>
  An engine that refuses an \<open>ATTACH\<close> statement it has already executed on the
  session: the alias is taken.
\<close>

definition alias_taken_error :: exn where
  "alias_taken_error = Exc OtherException ''Binder Error: database my_ducklake already exists''"

definition strict_attach_world :: world where
  "strict_attach_world =
     quiet_world\<lparr>fails := (\<lambda>tr ev.
        case ev of
          Execute con sql \<Rightarrow>
            if prefix ''ATTACH '' sql \<and> ev \<in> set tr then Some alias_taken_error else None
        | _ \<Rightarrow> None)\<rparr>"

text \<open>Results with one column \<open>revenue\<close> and one row, and with five and seven rows.\<close>

definition revenue_frame :: "real \<Rightarrow> frame" where
  "revenue_frame x = \<lparr>nrows = 1, cols = [(''revenue'', [Num x])]\<rparr>"

definition counted_frame :: "nat \<Rightarrow> frame" where
  "counted_frame n = \<lparr>nrows = n, cols = [(''n'', replicate n (Num 1))]\<rparr>"

definition ab_frame :: frame where
  "ab_frame = \<lparr>nrows = 1, cols = [(''a'', [Num 1]), (''b'', [Num 2])]\<rparr>"

definition ba_frame :: frame where
  "ba_frame = \<lparr>nrows = 1, cols = [(''b'', [Num 2]), (''a'', [Num 1])]\<rparr>"

text \<open>The two engines disagree on the number of rows: five against seven.\<close>

definition row_count_world :: world where
  "row_count_world =
     quiet_world\<lparr>fetch_df := (\<lambda>tr con sql.
        if con = RefCon then Inr (counted_frame 5) else Inr (counted_frame 7))\<rparr>"

section \<open>The data root\<close>

lemma rstrip_split: "rev (dropWhile P (rev xs)) @ rev (takeWhile P (rev xs)) = xs"
proof -
  have "rev (takeWhile P (rev xs) @ dropWhile P (rev xs)) = xs" by simp
  then show ?thesis unfolding rev_append .
qed

lemma py_strip_middle:
  "dropWhile (\<lambda>c. c \<in> set cs) s
     = py_strip cs s @ rev (takeWhile (\<lambda>c. c \<in> set cs) (rev (dropWhile (\<lambda>c. c \<in> set cs) s)))"
  unfolding py_strip_def by (rule rstrip_split [symmetric])

lemma py_strip_decompose:
  "\<exists>l r. s = l @ py_strip cs s @ r \<and> set l \<subseteq> set cs \<and> set r \<subseteq> set cs"
proof -
  let ?P = "\<lambda>c. c \<in> set cs"
  let ?m = "dropWhile ?P s"
  let ?r = "rev (takeWhile ?P (rev ?m))"
  have "s = takeWhile ?P s @ ?m" by simp
  also have "?m = py_strip cs s @ ?r" by (rule py_strip_middle)
  finally have s: "s = takeWhile ?P s @ py_strip cs s @ ?r" .
  have l: "set (takeWhile ?P s) \<subseteq> set cs"
    by (auto dest: set_takeWhileD)
  have r: "set ?r \<subseteq> set cs"
    by (auto dest: set_takeWhileD)
  from s l r show ?thesis by blast
qed

lemma py_strip_no_leading: "py_strip cs s \<noteq> [] \<Longrightarrow> hd (py_strip cs s) \<notin> set cs"
proof -
  let ?P = "\<lambda>c. c \<in> set cs"
  let ?m = "dropWhile ?P s"
  assume ne: "py_strip cs s \<noteq> []"
  have m: "?m = py_strip cs s @ rev (takeWhile ?P (rev ?m))" by (rule py_strip_middle)
  with ne have mne: "?m \<noteq> []" by (metis append_is_Nil_conv)
  then have "\<not> ?P (hd ?m)" by (rule hd_dropWhile)
  moreover from ne m have "hd ?m = hd (py_strip cs s)"
    by (metis hd_append2)
  ultimately show ?thesis by simp
qed

lemma py_strip_no_trailing: "py_strip cs s \<noteq> [] \<Longrightarrow> last (py_strip cs s) \<notin> set cs"
proof -
  let ?P = "\<lambda>c. c \<in> set cs"
  let ?d = "dropWhile ?P (rev (dropWhile ?P s))"
  assume ne: "py_strip cs s \<noteq> []"
  then have dne: "?d \<noteq> []" by (simp add: py_strip_def)
  then have "\<not> ?P (hd ?d)" by (rule hd_dropWhile)
  moreover from dne have "last (rev ?d) = hd ?d" by (simp add: last_rev)
  ultimately show ?thesis by (simp add: py_strip_def)
qed

text \<open>
  Claim C6. For every bucket and prefix, \<open>data_path\<close> is \<open>s3://{bucket}/{t}/\<close> when the
  trimmed prefix \<open>t\<close> is not empty and \<open>s3://{bucket}/\<close> when it is, where \<open>t\<close> is what
  is left of the prefix once the separators at both ends are taken away: the prefix is
  separators, then \<open>t\<close>, then separators, and \<open>t\<close> neither starts nor ends with a
  separator. In particular the empty prefix gives \<open>s3://{bucket}/\<close> and the prefix
  \<open>/a/\<close> gives \<open>s3://{bucket}/a/\<close>.
\<close>

theorem data_path_trims_prefix:
  "(\<exists>l r. key_prefix self = l @ py_strip ''/'' (key_prefix self) @ r
       \<and> set l \<subseteq> {CHR ''/''} \<and> set r \<subseteq> {CHR ''/''})
   \<and> \<not> prefix ''/'' (py_strip ''/'' (key_prefix self))
   \<and> \<not> suffix ''/'' (py_strip ''/'' (key_prefix self))
   \<and> data_path self =
       (if py_strip ''/'' (key_prefix self) = [] then ''s3://'' @ bucket self @ ''/''
        else ''s3://'' @ bucket self @ ''/'' @ py_strip ''/'' (key_prefix self) @ ''/'')
   \<and> data_path (self\<lparr>key_prefix := []\<rparr>) = ''s3://'' @ bucket self @ ''/''
   \<and> data_path (self\<lparr>key_prefix := ''/a/''\<rparr>) = ''s3://'' @ bucket self @ ''/a/''"
proof -
  let ?t = "py_strip ''/'' (key_prefix self)"
  have dec: "\<exists>l r. key_prefix self = l @ ?t @ r \<and> set l \<subseteq> {CHR ''/''} \<and> set r \<subseteq> {CHR ''/''}"
    using py_strip_decompose [of "key_prefix self" "''/''"] by simp
  have lead: "\<not> prefix ''/'' ?t"
  proof
    assume "prefix ''/'' ?t"
    then obtain u where u: "?t = CHR ''/'' # u" by (auto simp: prefix_def)
    then have "?t \<noteq> []" by simp
    then have "hd ?t \<notin> set ''/''" by (rule py_strip_no_leading)
    with u show False by simp
  qed
  have trail: "\<not> suffix ''/'' ?t"
  proof
    assume "suffix ''/'' ?t"
    then obtain u where u: "?t = u @ ''/''" by (auto simp: suffix_def)
    then have "?t \<noteq> []" by simp
    then have "last ?t \<notin> set ''/''" by (rule py_strip_no_trailing)
    with u show False by simp
  qed
  have path: "data_path self =
       (if ?t = [] then ''s3://'' @ bucket self @ ''/''
        else ''s3://'' @ bucket self @ ''/'' @ ?t @ ''/'')"
    by (simp add: data_path_def Let_def)
  have e1: "data_path (self\<lparr>key_prefix := []\<rparr>) = ''s3://'' @ bucket self @ ''/''"
    by (simp add: data_path_def py_strip_def)
  have e2: "data_path (self\<lparr>key_prefix := ''/a/''\<rparr>) = ''s3://'' @ bucket self @ ''/a/''"
    by (simp add: data_path_def py_strip_def)
  from dec lead trail path e1 e2 show ?thesis by blast
qed

text \<open>
  Claim C10. The validator's data root \<open>s3://{bucket}/{prefix}\<close> and the data root of
  \<open>data_path\<close> are not the same function of bucket and prefix. For the starter document
  with the prefix \<open>tpch\<close> in place of \<open>tpch/\<close>, \<open>from_dict\<close> accepts the document, the
  bootstrap session attaches \<open>s3://ducklake-data/tpch/\<close>, and the validator attaches
  \<open>s3://ducklake-data/tpch\<close>.
\<close>

theorem validator_data_path_differs:
  "from_dict (starter_doc\<lparr>sec_storage :=
       Some ((the (sec_storage starter_doc))\<lparr>doc_prefix := Some ''tpch''\<rparr>)\<rparr>) minio_env
     = Inr \<lparr>metadata = \<lparr>file_path = ''./metadata.ducklake''\<rparr>,
            storage = local_storage ''tpch'' ''http://localhost:9000'',
            catalog = \<lparr>catalog_alias = ''my_ducklake''\<rparr>,
            tpch = \<lparr>default_scale = 1\<rparr>\<rparr>
   \<and> data_path (local_storage ''tpch'' ''http://localhost:9000'') = ''s3://ducklake-data/tpch/''
   \<and> validator_data_path ''ducklake-data'' ''tpch'' = ''s3://ducklake-data/tpch''"
  by (simp add: from_dict_def starter_doc_def minio_env_def local_storage_def dict_get_def
      py_or_def data_path_def py_strip_def validator_data_path_def Let_def)

section \<open>Classification\<close>

text \<open>
  Claim C2. The rules of the classification apply in order and the first that fits
  decides. Column name sequences that differ give \<open>(False, "Column mismatch")\<close>
  whatever the row counts are; with equal column sequences, row counts \<open>a\<close> and \<open>b\<close>
  that differ give \<open>(False, "Row count mismatch (a vs b)")\<close>, the reference count first.
\<close>

theorem classify_first_rule_wins:
  "(frame_columns df_ref \<noteq> frame_columns df_dl \<longrightarrow>
      classify w df_ref df_dl = Inr (False, ''Column mismatch''))
   \<and> (frame_columns df_ref = frame_columns df_dl \<and> frame_len df_ref \<noteq> frame_len df_dl \<longrightarrow>
      classify w df_ref df_dl =
        Inr (False, ''Row count mismatch ('' @ str_int (int (frame_len df_ref)) @ '' vs ''
                      @ str_int (int (frame_len df_dl)) @ '')''))"
  by (simp add: classify_def row_count_reason_def)

lemma str_int_5: "str_int 5 = ''5''"
  by (simp add: str_int_def str_nat.simps digit_char_def)

lemma str_int_7: "str_int 7 = ''7''"
  by (simp add: str_int_def str_nat.simps digit_char_def)

text \<open>
  The columns \<open>[a, b]\<close> against \<open>[b, a]\<close> with the same data (the column sets are
  equal, the sequences are not), and five rows against seven.
\<close>

theorem classify_first_rule_wins_witness:
  "set (frame_columns ab_frame) = set (frame_columns ba_frame)
   \<and> frame_columns ab_frame \<noteq> frame_columns ba_frame
   \<and> frame_len ab_frame = frame_len ba_frame
   \<and> classify quiet_world ab_frame ba_frame = Inr (False, ''Column mismatch'')
   \<and> frame_columns (counted_frame 5) = frame_columns (counted_frame 7)
   \<and> classify quiet_world (counted_frame 5) (counted_frame 7)
       = Inr (False, ''Row count mismatch (5 vs 7)'')"
  using classify_first_rule_wins [of ab_frame ba_frame quiet_world]
    classify_first_rule_wins [of "counted_frame 5" "counted_frame 7" quiet_world]
  by (auto simp add: frame_columns_def frame_len_def ab_frame_def ba_frame_def counted_frame_def
      str_int_5 str_int_7)

subsection \<open>The comparison within tolerance\<close>

lemma column_close_label: "column_close l r \<Longrightarrow> fst l = fst r"
  by (simp add: column_close_def)

text \<open>Sorting both column lists by label keeps corresponding columns side by side.\<close>

lemma insort_columns_close:
  "list_all2 column_close xs ys \<Longrightarrow> column_close x y \<Longrightarrow>
   list_all2 column_close (insort_key fst x xs) (insort_key fst y ys)"
proof (induction xs ys rule: list_all2_induct)
  case Nil
  then show ?case by simp
next
  case (Cons a xs b ys)
  from Cons.hyps(1) have ab: "fst a = fst b" by (rule column_close_label)
  from Cons.prems have xy: "fst x = fst y" by (rule column_close_label)
  show ?case
  proof (cases "fst x \<le> fst a")
    case True
    with ab xy Cons.hyps Cons.prems show ?thesis by simp
  next
    case False
    with ab xy Cons.hyps Cons.IH [OF Cons.prems] show ?thesis by simp
  qed
qed

lemma sort_columns_close:
  "list_all2 column_close xs ys \<Longrightarrow>
   list_all2 column_close (sort_key fst xs) (sort_key fst ys)"
  by (induction xs ys rule: list_all2_induct) (auto intro: insort_columns_close)

lemma cell_close_refl: "cell_close x x"
  by (cases x) auto

lemma column_close_refl: "column_close c c"
  by (simp add: column_close_def list_all2_same cell_close_refl)

lemma columns_close_zip:
  "map fst xs = map fst ys \<Longrightarrow> list_all2 (list_all2 cell_close) (map snd xs) (map snd ys) \<Longrightarrow>
   list_all2 column_close xs ys"
proof (induction xs arbitrary: ys)
  case Nil
  then show ?case by simp
next
  case (Cons x xs)
  then obtain y ys' where ys: "ys = y # ys'" by (cases ys) auto
  with Cons.prems have "column_close x y" by (simp add: column_close_def)
  moreover from Cons ys have "list_all2 column_close xs ys'" by simp
  ultimately show ?case using ys by simp
qed

text \<open>
  Claim C8. With the comparison the specification describes, two results with the
  same column name sequence and the same row count are classified as a match with an
  empty reason whenever corresponding cells are within the tolerance \<open>1e-6\<close> (numbers
  of an integer and of a floating-point column alike; text and nulls equal). In
  particular a result matches itself.
\<close>

theorem close_frames_match:
  assumes "assert_frame_equal w = spec_assert_frame_equal"
  shows "classify w df df = Inr (True, [])
    \<and> (frame_columns df_ref = frame_columns df_dl \<and> frame_len df_ref = frame_len df_dl
        \<and> list_all2 (list_all2 cell_close) (map snd (cols df_ref)) (map snd (cols df_dl))
       \<longrightarrow> classify w df_ref df_dl = Inr (True, []))"
proof -
  have same: "classify w df df = Inr (True, [])"
    using assms
    by (simp add: classify_def spec_assert_frame_equal_def spec_frames_close_def
        sort_index_axis1_def list_all2_same column_close_refl)
  have close: "classify w df_ref df_dl = Inr (True, [])"
    if c: "frame_columns df_ref = frame_columns df_dl"
      and n: "frame_len df_ref = frame_len df_dl"
      and v: "list_all2 (list_all2 cell_close) (map snd (cols df_ref)) (map snd (cols df_dl))"
  proof -
    from c v have "list_all2 column_close (cols df_ref) (cols df_dl)"
      by (simp add: frame_columns_def columns_close_zip)
    then have "list_all2 column_close (sort_key fst (cols df_ref)) (sort_key fst (cols df_dl))"
      by (rule sort_columns_close)
    with n have "spec_frames_close (sort_index_axis1 df_ref) (sort_index_axis1 df_dl)"
      by (simp add: spec_frames_close_def sort_index_axis1_def frame_len_def)
    with c n assms show ?thesis
      by (simp add: classify_def spec_assert_frame_equal_def)
  qed
  from same close show ?thesis by blast
qed

text \<open>One row each, \<open>revenue\<close> 100.000001 against 100.0000009.\<close>

theorem close_frames_match_witness:
  "assert_frame_equal (quiet_world\<lparr>assert_frame_equal := spec_assert_frame_equal\<rparr>)
     = spec_assert_frame_equal
   \<and> frame_columns (revenue_frame (100000001 / 1000000))
       = frame_columns (revenue_frame (1000000009 / 10000000))
   \<and> frame_len (revenue_frame (100000001 / 1000000))
       = frame_len (revenue_frame (1000000009 / 10000000))
   \<and> list_all2 (list_all2 cell_close) (map snd (cols (revenue_frame (100000001 / 1000000))))
        (map snd (cols (revenue_frame (1000000009 / 10000000))))
   \<and> classify (quiet_world\<lparr>assert_frame_equal := spec_assert_frame_equal\<rparr>)
        (revenue_frame (100000001 / 1000000)) (revenue_frame (1000000009 / 10000000))
       = Inr (True, [])"
  using close_frames_match [of "quiet_world\<lparr>assert_frame_equal := spec_assert_frame_equal\<rparr>"
      df "revenue_frame (100000001 / 1000000)" "revenue_frame (1000000009 / 10000000)"]
  by (simp add: revenue_frame_def frame_columns_def frame_len_def)

section \<open>Validation, query by query\<close>

text \<open>Fetching, executing and classifying write no artifact.\<close>

lemma artifact_events_fetch:
  "artifact_events (snd (fetch_query_text w q tr)) = artifact_events tr"
  by (simp add: fetch_query_text_def artifact_events_def)

lemma artifact_events_run_both:
  "artifact_events (snd (run_both w cfg sql tr)) = artifact_events tr"
  by (simp add: run_both_def perform_def query_df_def artifact_events_def
      split: prod.splits option.splits sum.splits)

lemma artifact_events_execute_and_classify:
  "artifact_events (snd (execute_and_classify w cfg sql tr)) = artifact_events tr"
  using artifact_events_run_both [of w cfg sql tr]
  by (auto simp add: execute_and_classify_def split: prod.splits sum.splits)


text \<open>One turn of the loop, by what the executions and the classification gave.\<close>

lemma validate_one_fetch_fails:
  "fetch_query_text w q tr = (Inl e, tr0) \<Longrightarrow> validate_one w cfg q summary tr = (Inl e, tr0)"
  by (simp add: validate_one_def)

lemma validate_one_exception:
  "fetch_query_text w q tr = (Inr sql, tr0) \<Longrightarrow>
   execute_and_classify w cfg sql tr0 = (Inl e, tr1) \<Longrightarrow>
   validate_one w cfg q summary tr =
     (Inr (summary @ [\<lparr>row_query = query_label q, row_match = False,
                        row_reason = py_str_exn e\<rparr>]), tr1)"
  by (simp add: validate_one_def try_body_def)

lemma validate_one_match:
  "fetch_query_text w q tr = (Inr sql, tr0) \<Longrightarrow>
   execute_and_classify w cfg sql tr0 = (Inr (a, b, True, reason), tr1) \<Longrightarrow>
   validate_one w cfg q summary tr =
     (Inr (summary @ [\<lparr>row_query = query_label q, row_match = True, row_reason = reason\<rparr>]), tr1)"
  by (simp add: validate_one_def try_body_def)

lemma validate_one_mismatch:
  "fetch_query_text w q tr = (Inr sql, tr0) \<Longrightarrow>
   execute_and_classify w cfg sql tr0 = (Inr (a, b, False, reason), tr1) \<Longrightarrow>
   fails w tr1 (ToCsv (ref_csv q) a) = None \<Longrightarrow>
   fails w (tr1 @ [ToCsv (ref_csv q) a]) (ToCsv (ducklake_csv q) b) = None \<Longrightarrow>
   validate_one w cfg q summary tr =
     (Inr (summary @ [\<lparr>row_query = query_label q, row_match = False, row_reason = reason\<rparr>]),
      tr1 @ [ToCsv (ref_csv q) a, ToCsv (ducklake_csv q) b])"
  by (simp add: validate_one_def try_body_def)

lemma validate_one_rows:
  assumes "fetch_query_text w q tr = (Inr sql, tr0)"
  shows "\<exists>rows tr'. validate_one w cfg q summary tr = (Inr (summary @ rows), tr')
           \<and> rows \<noteq> [] \<and> row_query ` set rows = {query_label q}"
proof -
  obtain oc tr1 where oc: "execute_and_classify w cfg sql tr0 = (oc, tr1)"
    by (cases "execute_and_classify w cfg sql tr0")
  show ?thesis
  proof (cases oc)
    case (Inl e)
    with assms oc show ?thesis by (simp add: validate_one_exception)
  next
    case (Inr r)
    then obtain a b m reason where r: "oc = Inr (a, b, m, reason)" by (cases r) auto
    obtain wr tr2 where wr:
      "perform_all w [ToCsv (ref_csv q) a, ToCsv (ducklake_csv q) b] tr1 = (wr, tr2)"
      by (cases "perform_all w [ToCsv (ref_csv q) a, ToCsv (ducklake_csv q) b] tr1")
    show ?thesis
    proof (cases m)
      case True
      with assms oc r show ?thesis by (simp add: validate_one_match)
    next
      case False
      show ?thesis
      proof (cases wr)
        case None
        with assms oc r wr False show ?thesis
          by (simp add: validate_one_def try_body_def del: perform_all.simps)
      next
        case (Some e)
        with assms oc r wr False show ?thesis
          by (simp add: validate_one_def try_body_def del: perform_all.simps)
      qed
    qed
  qed
qed

text \<open>
  When every query has a text the loop runs to its end, and the rows it appends are
  the rows of the requested ids.
\<close>

lemma validate_loop_rows:
  assumes h: "\<forall>tr q. \<exists>sql. fetchone w tr LakeCon (query_text_sql q) = Inr (Some sql)"
  shows "\<exists>rows tr'. validate_loop w cfg ids summary tr = (Inr (summary @ rows), tr')
           \<and> row_query ` set rows = query_label ` set ids"
proof (induction ids arbitrary: summary tr)
  case Nil
  then show ?case by simp
next
  case (Cons q qs)
  from h obtain sql where "fetchone w tr LakeCon (query_text_sql q) = Inr (Some sql)" by blast
  then have "fetch_query_text w q tr = (Inr sql, tr @ [Execute LakeCon (query_text_sql q)])"
    by (simp add: fetch_query_text_def)
  from validate_one_rows [OF this] obtain rows tr1 where
    one: "validate_one w cfg q summary tr = (Inr (summary @ rows), tr1)"
    and rows: "row_query ` set rows = {query_label q}" by blast
  from Cons.IH [of "summary @ rows" tr1] obtain rows' tr' where
    rest: "validate_loop w cfg qs (summary @ rows) tr1 = (Inr ((summary @ rows) @ rows'), tr')"
    and rows': "row_query ` set rows' = query_label ` set qs" by blast
  from one rest have "validate_loop w cfg (q # qs) summary tr = (Inr (summary @ (rows @ rows')), tr')"
    by simp
  moreover from rows rows' have "row_query ` set (rows @ rows') = query_label ` set (q # qs)"
    by (simp add: image_Un)
  ultimately show ?case by blast
qed

text \<open>The loop is left early only by an exception raised while a query text is fetched.\<close>

lemma validate_loop_abort:
  "validate_loop w cfg ids summary tr = (Inl e, tr') \<Longrightarrow>
   \<exists>q\<in>set ids. \<exists>tr0. fetch_query_text w q tr0 = (Inl e, tr')"
proof (induction ids arbitrary: summary tr)
  case Nil
  then show ?case by simp
next
  case (Cons q qs)
  obtain r tr1 where one: "validate_one w cfg q summary tr = (r, tr1)"
    by (cases "validate_one w cfg q summary tr")
  show ?case
  proof (cases r)
    case (Inl e1)
    with one Cons.prems have e: "e1 = e" "tr1 = tr'" by simp_all
    obtain f tr0 where f: "fetch_query_text w q tr = (f, tr0)"
      by (cases "fetch_query_text w q tr")
    from one Inl e f have "fetch_query_text w q tr = (Inl e, tr')"
      by (cases f) (auto simp: validate_one_def split: prod.splits option.splits)
    then show ?thesis by auto
  next
    case (Inr s1)
    with one Cons.prems have "validate_loop w cfg qs s1 tr1 = (Inl e, tr')" by simp
    from Cons.IH [OF this] show ?thesis by auto
  qed
qed


text \<open>
  What the \<open>try\<close> statement isolates. For a query whose text was fetched, an exception
  raised while the text is executed against the reference engine or against the
  lakehouse catalog, or while the results are classified, is caught: it becomes a row
  with \<open>match\<close> false and the exception's text as reason, and the loop goes on. When
  every requested id has a query text, the loop ends normally with rows for exactly the
  requested ids. The loop is left early only by an exception raised while a query text
  is fetched.
\<close>

theorem failures_inside_try_are_isolated:
  "(\<forall>sql tr0 e tr1.
       fetch_query_text w q tr = (Inr sql, tr0) \<and> execute_and_classify w cfg sql tr0 = (Inl e, tr1)
       \<longrightarrow> validate_one w cfg q summary tr =
             (Inr (summary @ [\<lparr>row_query = query_label q, row_match = False,
                                row_reason = py_str_exn e\<rparr>]), tr1))
   \<and> ((\<forall>tr q. \<exists>sql. fetchone w tr LakeCon (query_text_sql q) = Inr (Some sql))
       \<longrightarrow> (\<exists>rows tr'. validate_loop w cfg ids summary tr = (Inr (summary @ rows), tr')
              \<and> row_query ` set rows = query_label ` set ids))
   \<and> (\<forall>e tr'. validate_loop w cfg ids summary tr = (Inl e, tr')
       \<longrightarrow> (\<exists>q\<in>set ids. \<exists>tr0. fetch_query_text w q tr0 = (Inl e, tr')))"
  using validate_one_exception [of w q tr _ _ cfg _ _ summary]
    validate_loop_rows [of w cfg ids summary tr]
    validate_loop_abort [of w cfg ids summary tr]
  by blast

text \<open>Numerals in the labels and file names of the examples.\<close>

lemma str_int_1: "str_int 1 = ''1''"
  by (simp add: str_int_def str_nat.simps digit_char_def)

lemma str_int_2: "str_int 2 = ''2''"
  by (simp add: str_int_def str_nat.simps digit_char_def)

lemma str_int_3: "str_int 3 = ''3''"
  by (simp add: str_int_def str_nat.simps digit_char_def)

lemma missing_table_world_texts:
  "\<forall>tr q. \<exists>sql. fetchone missing_table_world tr LakeCon (query_text_sql q) = Inr (Some sql)"
  by (simp add: missing_table_world_def quiet_world_def)

text \<open>
  Query 2 fails on the lakehouse side with a missing table; queries 1 and 3 are still
  validated, and the summary holds one row for query 2 with the raw error text.
\<close>

theorem failures_inside_try_are_isolated_witness:
  "(\<forall>tr q. \<exists>sql. fetchone missing_table_world tr LakeCon (query_text_sql q) = Inr (Some sql))
   \<and> fetch_query_text missing_table_world 2 [] =
        (Inr (query_text_sql 2), [Execute LakeCon (query_text_sql 2)])
   \<and> fst (execute_and_classify missing_table_world starter_doc (query_text_sql 2)
             [Execute LakeCon (query_text_sql 2)]) = Inl missing_table_error
   \<and> fst (validate_loop missing_table_world starter_doc [1, 2, 3] [] []) =
        Inr [\<lparr>row_query = ''Q01'', row_match = True, row_reason = []\<rparr>,
             \<lparr>row_query = ''Q02'', row_match = False,
              row_reason = ''Catalog Error: Table with name lineitem does not exist!''\<rparr>,
             \<lparr>row_query = ''Q03'', row_match = True, row_reason = []\<rparr>]"
  using failures_inside_try_are_isolated [of missing_table_world 2 "[]" starter_doc "[]" "[1, 2, 3]"]
    missing_table_world_texts
  by (simp add: missing_table_world_def quiet_world_def starter_doc_def missing_table_error_def
      validate_one_def try_body_def execute_and_classify_def run_both_def classify_def
      fetch_query_text_def query_df_def perform_def dict_item_def query_text_sql_def
      query_label_def fmt_02d_def str_int_1 str_int_2 str_int_3 empty_frame_def
      frame_columns_def frame_len_def sort_index_axis1_def)

text \<open>The second example below: query 1 is validated, then the fetch for id 23 fails.\<close>

lemma str_int_23: "str_int 23 = ''23''"
  by (simp add: str_int_def str_nat.simps digit_char_def)

lemma fetch_failure_23:
  "validate_loop no_row_world starter_doc [1, 23] [] [] =
     (Inl (Exc TypeError (quoted ''NoneType'' @ '' object is not subscriptable'')),
      [Execute LakeCon ''SELECT query FROM tpch_queries() WHERE query_nr=1;'',
       Execute RefCon ''USE tpch_ref;'',
       Execute RefCon ''SELECT query FROM tpch_queries() WHERE query_nr=1;'',
       Execute LakeCon ''USE my_ducklake;'',
       Execute LakeCon ''SELECT query FROM tpch_queries() WHERE query_nr=1;'',
       Execute LakeCon ''SELECT query FROM tpch_queries() WHERE query_nr=23;''])"
  by (simp add: no_row_world_def quiet_world_def starter_doc_def
      validate_one_def try_body_def execute_and_classify_def run_both_def classify_def
      fetch_query_text_def query_df_def perform_def dict_item_def query_text_sql_def
      str_int_1 str_int_23 empty_frame_def frame_columns_def frame_len_def)

text \<open>
  Claim C1. An exception raised in any of the steps 1 to 4 for one id should become a
  row with \<open>match\<close> false and the exception's text, and the remaining ids should still
  be validated. The code does not do this for step 1: the query text is fetched before
  the \<open>try\<close> statement. Asked for the ids 1 and 2 on a session where fetching a query
  text raises, \<open>validate_tpch\<close> ends with that exception at the first id, and query 2
  is never looked at. Asked for the ids 1 and 23, where the generator has no query 23,
  query 1 is validated, then \<open>fetchone()[0]\<close> raises \<open>TypeError\<close> and \<open>validate_tpch\<close>
  ends with it: the row of query 1 is lost, since the loop is left with the exception
  and the summary is written only after the loop.
\<close>

theorem fetch_failure_aborts_validation:
  "fst (validate_tpch no_generator_world starter_doc 1 [1, 2] []) = Some no_generator_error
   \<and> validate_loop no_generator_world starter_doc [1, 2] [] [] =
     (Inl no_generator_error,
      [Execute LakeCon ''SELECT query FROM tpch_queries() WHERE query_nr=1;''])
   \<and> fst (validate_tpch no_row_world starter_doc 1 [1, 23] []) =
       Some (Exc TypeError (quoted ''NoneType'' @ '' object is not subscriptable''))
   \<and> validate_loop no_row_world starter_doc [1, 23] [] [] =
     (Inl (Exc TypeError (quoted ''NoneType'' @ '' object is not subscriptable'')),
      [Execute LakeCon ''SELECT query FROM tpch_queries() WHERE query_nr=1;'',
       Execute RefCon ''USE tpch_ref;'',
       Execute RefCon ''SELECT query FROM tpch_queries() WHERE query_nr=1;'',
       Execute LakeCon ''USE my_ducklake;'',
       Execute LakeCon ''SELECT query FROM tpch_queries() WHERE query_nr=1;'',
       Execute LakeCon ''SELECT query FROM tpch_queries() WHERE query_nr=23;''])"
proof -
  have a: "fst (validate_tpch no_generator_world starter_doc 1 [1, 2] []) = Some no_generator_error
   \<and> validate_loop no_generator_world starter_doc [1, 2] [] [] =
     (Inl no_generator_error,
      [Execute LakeCon ''SELECT query FROM tpch_queries() WHERE query_nr=1;''])"
    by (simp add: validate_tpch_def open_ducklake_def open_reference_def no_generator_world_def
      quiet_world_def starter_doc_def validate_one_def fetch_query_text_def perform_def
      dict_item_def query_text_sql_def str_int_1 Let_def)
  have b: "fst (validate_tpch no_row_world starter_doc 1 [1, 23] []) =
       Some (Exc TypeError (quoted ''NoneType'' @ '' object is not subscriptable''))"
    by (simp add: validate_tpch_def open_ducklake_def open_reference_def no_row_world_def
      quiet_world_def starter_doc_def validate_one_def try_body_def execute_and_classify_def
      run_both_def classify_def fetch_query_text_def query_df_def perform_def
      dict_item_def query_text_sql_def str_int_1 str_int_23 empty_frame_def frame_columns_def
      frame_len_def Let_def)
  from a b fetch_failure_23 show ?thesis by blast
qed

text \<open>
  Claim C9. Fetching, executing and classifying write no artifact. A query that
  ended in an exception has its error row and no artifact; a query classified as a
  match has its row and no artifact; a query classified as a mismatch (column,
  row count or data) has its row with \<open>match\<close> false and the pair of dumps, the
  reference output first, provided the two writes themselves do not fail.
\<close>

theorem artifacts_only_for_mismatch:
  assumes "fetch_query_text w q tr = (Inr sql, tr0)"
      and "execute_and_classify w cfg sql tr0 = (oc, tr1)"
  shows "artifact_events tr1 = artifact_events tr
   \<and> (\<forall>e. oc = Inl e \<longrightarrow>
         validate_one w cfg q summary tr =
           (Inr (summary @ [\<lparr>row_query = query_label q, row_match = False,
                              row_reason = py_str_exn e\<rparr>]), tr1))
   \<and> (\<forall>a b reason. oc = Inr (a, b, True, reason) \<longrightarrow>
         validate_one w cfg q summary tr =
           (Inr (summary @ [\<lparr>row_query = query_label q, row_match = True,
                              row_reason = reason\<rparr>]), tr1))
   \<and> (\<forall>a b reason. oc = Inr (a, b, False, reason)
         \<and> fails w tr1 (ToCsv (ref_csv q) a) = None
         \<and> fails w (tr1 @ [ToCsv (ref_csv q) a]) (ToCsv (ducklake_csv q) b) = None \<longrightarrow>
         validate_one w cfg q summary tr =
           (Inr (summary @ [\<lparr>row_query = query_label q, row_match = False,
                              row_reason = reason\<rparr>]),
            tr1 @ [ToCsv (ref_csv q) a, ToCsv (ducklake_csv q) b]))"
proof -
  have "artifact_events tr0 = artifact_events tr"
    using artifact_events_fetch [of w q tr] assms(1) by simp
  moreover have "artifact_events tr1 = artifact_events tr0"
    using artifact_events_execute_and_classify [of w cfg sql tr0] assms(2) by simp
  ultimately have quiet: "artifact_events tr1 = artifact_events tr" by simp
  from assms have exc: "\<forall>e. oc = Inl e \<longrightarrow>
         validate_one w cfg q summary tr =
           (Inr (summary @ [\<lparr>row_query = query_label q, row_match = False,
                              row_reason = py_str_exn e\<rparr>]), tr1)"
    by (simp add: validate_one_exception)
  from assms have ok: "\<forall>a b reason. oc = Inr (a, b, True, reason) \<longrightarrow>
         validate_one w cfg q summary tr =
           (Inr (summary @ [\<lparr>row_query = query_label q, row_match = True,
                              row_reason = reason\<rparr>]), tr1)"
    by (simp add: validate_one_match)
  from assms have bad: "\<forall>a b reason. oc = Inr (a, b, False, reason)
         \<and> fails w tr1 (ToCsv (ref_csv q) a) = None
         \<and> fails w (tr1 @ [ToCsv (ref_csv q) a]) (ToCsv (ducklake_csv q) b) = None \<longrightarrow>
         validate_one w cfg q summary tr =
           (Inr (summary @ [\<lparr>row_query = query_label q, row_match = False,
                              row_reason = reason\<rparr>]),
            tr1 @ [ToCsv (ref_csv q) a, ToCsv (ducklake_csv q) b])"
    by (simp add: validate_one_mismatch)
  from quiet exc ok bad show ?thesis by blast
qed

text \<open>Five rows against seven for query 1: the row and both dumps.\<close>

theorem artifacts_only_for_mismatch_witness:
  "fetch_query_text row_count_world 1 [] =
     (Inr (query_text_sql 1), [Execute LakeCon (query_text_sql 1)])
   \<and> execute_and_classify row_count_world starter_doc (query_text_sql 1)
        [Execute LakeCon (query_text_sql 1)] =
       (Inr (counted_frame 5, counted_frame 7, False, ''Row count mismatch (5 vs 7)''),
        [Execute LakeCon (query_text_sql 1), Execute RefCon ''USE tpch_ref;'',
         Execute RefCon (query_text_sql 1), Execute LakeCon ''USE my_ducklake;'',
         Execute LakeCon (query_text_sql 1)])
   \<and> validate_one row_count_world starter_doc 1 [] [] =
       (Inr [\<lparr>row_query = ''Q01'', row_match = False,
              row_reason = ''Row count mismatch (5 vs 7)''\<rparr>],
        [Execute LakeCon (query_text_sql 1), Execute RefCon ''USE tpch_ref;'',
         Execute RefCon (query_text_sql 1), Execute LakeCon ''USE my_ducklake;'',
         Execute LakeCon (query_text_sql 1),
         ToCsv ''tpch_validation/q01_ref.csv'' (counted_frame 5),
         ToCsv ''tpch_validation/q01_ducklake.csv'' (counted_frame 7)])"
proof -
  have f: "fetch_query_text row_count_world 1 [] =
     (Inr (query_text_sql 1), [Execute LakeCon (query_text_sql 1)])"
    by (simp add: fetch_query_text_def row_count_world_def quiet_world_def)
  have x: "execute_and_classify row_count_world starter_doc (query_text_sql 1)
        [Execute LakeCon (query_text_sql 1)] =
       (Inr (counted_frame 5, counted_frame 7, False, ''Row count mismatch (5 vs 7)''),
        [Execute LakeCon (query_text_sql 1), Execute RefCon ''USE tpch_ref;'',
         Execute RefCon (query_text_sql 1), Execute LakeCon ''USE my_ducklake;'',
         Execute LakeCon (query_text_sql 1)])"
    by (simp add: execute_and_classify_def run_both_def classify_def row_count_world_def
        quiet_world_def starter_doc_def query_df_def perform_def dict_item_def
        frame_columns_def frame_len_def counted_frame_def row_count_reason_def
        str_int_5 str_int_7)
  from artifacts_only_for_mismatch [OF f x, of "[]"] f x show ?thesis
    by (simp add: row_count_world_def quiet_world_def ref_csv_def ducklake_csv_def
        query_label_def fmt_02d_def str_int_1)
qed

section \<open>Bulk load\<close>

lemma attach_src_sql_1: "attach_src_sql 1 = ''ATTACH 'tpch-sf1.duckdb' AS tpch_src;''"
  by (simp add: attach_src_sql_def tpch_local_db_def quoted_def str_int_1)

lemma copy_sql_my_ducklake: "copy_sql ''my_ducklake'' = ''COPY FROM DATABASE tpch_src TO my_ducklake;''"
  by (simp add: copy_sql_def)

lemma ensure_cached_quiet:
  "path_exists w = (\<lambda>tr p. True) \<Longrightarrow> ensure_cached w 1 [] = (None, [PathExists ''tpch-sf1.duckdb''])"
  by (simp add: ensure_cached_def tpch_local_db_def str_int_1)

text \<open>
  Claim C3, as amended. Once the dataset file is in place, \<open>generate_tpch_and_load\<close>
  detaches the transient source as its last step when the attach and the copy succeed,
  and whenever it returns normally the detach statement was the last thing it issued.
  When the copy fails, the function ends with that exception right after the copy:
  no detach is issued and the source stays attached.
\<close>

theorem detach_is_the_last_step_of_success:
  assumes "ensure_cached w scale tr = (None, tr1)"
  shows "(fails w tr1 (Execute con (attach_src_sql scale)) = None
        \<and> fails w (tr1 @ [Execute con (attach_src_sql scale)]) (Execute con (copy_sql al)) = None
       \<longrightarrow> generate_tpch_and_load w con scale al tr =
             (fails w (tr1 @ [Execute con (attach_src_sql scale), Execute con (copy_sql al)])
                (Execute con detach_sql),
              tr1 @ [Execute con (attach_src_sql scale), Execute con (copy_sql al),
                     Execute con detach_sql]))
   \<and> (\<forall>e. fails w tr1 (Execute con (attach_src_sql scale)) = None
        \<and> fails w (tr1 @ [Execute con (attach_src_sql scale)]) (Execute con (copy_sql al)) = Some e
       \<longrightarrow> generate_tpch_and_load w con scale al tr =
             (Some e, tr1 @ [Execute con (attach_src_sql scale), Execute con (copy_sql al)]))
   \<and> (\<forall>tr'. generate_tpch_and_load w con scale al tr = (None, tr')
       \<longrightarrow> tr' = tr1 @ [Execute con (attach_src_sql scale), Execute con (copy_sql al),
                        Execute con detach_sql])"
  using assms
  by (auto simp add: generate_tpch_and_load_def split: option.splits)

text \<open>Scale 1 with the file cached and an engine that accepts every statement.\<close>

theorem detach_is_the_last_step_of_success_witness:
  "ensure_cached quiet_world 1 [] = (None, [PathExists ''tpch-sf1.duckdb''])
   \<and> fails quiet_world [PathExists ''tpch-sf1.duckdb''] (Execute BootstrapCon (attach_src_sql 1)) = None
   \<and> fails quiet_world [PathExists ''tpch-sf1.duckdb'', Execute BootstrapCon (attach_src_sql 1)]
        (Execute BootstrapCon (copy_sql ''my_ducklake'')) = None
   \<and> generate_tpch_and_load quiet_world BootstrapCon 1 ''my_ducklake'' [] =
       (None,
        [PathExists ''tpch-sf1.duckdb'',
         Execute BootstrapCon ''ATTACH 'tpch-sf1.duckdb' AS tpch_src;'',
         Execute BootstrapCon ''COPY FROM DATABASE tpch_src TO my_ducklake;'',
         Execute BootstrapCon ''DETACH DATABASE tpch_src;''])"
proof -
  have c: "ensure_cached quiet_world 1 [] = (None, [PathExists ''tpch-sf1.duckdb''])"
    by (rule ensure_cached_quiet) (simp add: quiet_world_def)
  have f: "\<And>tr ev. fails quiet_world tr ev = None"
    by (simp add: quiet_world_def)
  from detach_is_the_last_step_of_success [OF c, of BootstrapCon "''my_ducklake''", THEN conjunct1]
  have "generate_tpch_and_load quiet_world BootstrapCon 1 ''my_ducklake'' [] =
     (None, [PathExists ''tpch-sf1.duckdb''] @ [Execute BootstrapCon (attach_src_sql 1),
        Execute BootstrapCon (copy_sql ''my_ducklake''), Execute BootstrapCon detach_sql])"
    by (simp add: f)
  then have "generate_tpch_and_load quiet_world BootstrapCon 1 ''my_ducklake'' [] =
       (None,
        [PathExists ''tpch-sf1.duckdb'',
         Execute BootstrapCon ''ATTACH 'tpch-sf1.duckdb' AS tpch_src;'',
         Execute BootstrapCon ''COPY FROM DATABASE tpch_src TO my_ducklake;'',
         Execute BootstrapCon ''DETACH DATABASE tpch_src;''])"
    by (simp add: attach_src_sql_1 copy_sql_my_ducklake detach_sql_def)
  with c f show ?thesis by simp
qed

text \<open>
  Claim C3 as stated fails on the failure path. With an engine that refuses the copy,
  the function ends with the engine's exception, and the statements it issued are the
  attach and the copy: the transient source is still attached when it returns.
\<close>

theorem copy_failure_leaves_source_attached:
  "generate_tpch_and_load copy_fails_world BootstrapCon 1 ''my_ducklake'' [] =
     (Some copy_error,
      [PathExists ''tpch-sf1.duckdb'',
       Execute BootstrapCon ''ATTACH 'tpch-sf1.duckdb' AS tpch_src;'',
       Execute BootstrapCon ''COPY FROM DATABASE tpch_src TO my_ducklake;''])"
proof -
  have c: "ensure_cached copy_fails_world 1 [] = (None, [PathExists ''tpch-sf1.duckdb''])"
    by (rule ensure_cached_quiet) (simp add: copy_fails_world_def quiet_world_def)
  have f: "fails copy_fails_world = (\<lambda>tr ev.
        if ev = Execute BootstrapCon ''COPY FROM DATABASE tpch_src TO my_ducklake;''
        then Some copy_error else None)"
    by (simp add: copy_fails_world_def copy_sql_my_ducklake)
  show ?thesis
    by (simp add: generate_tpch_and_load_def c f attach_src_sql_1 copy_sql_my_ducklake)
qed

section \<open>Credentials\<close>

text \<open>\<open>from_dict\<close> by the two credentials it resolves.\<close>

lemma from_dict_ok:
  assumes "st = dict_get (sec_storage d) empty_storage"
      and "ak = dict_get (doc_access_key st) (getenv ''MINIO_ACCESS_KEY'')"
      and "sk = dict_get (doc_secret_key st)
                  (py_or (getenv ''MINIO_SECRET_KEY'') (getenv ''MINIO_SECRET_ACCESS_KEY''))"
      and "truthy ak" and "truthy sk"
  shows "\<exists>cfg. from_dict d getenv = Inr cfg
           \<and> access_key (storage cfg) = ak \<and> secret_key (storage cfg) = sk"
  using assms by (simp add: from_dict_def Let_def)

lemma from_dict_raises:
  assumes "st = dict_get (sec_storage d) empty_storage"
      and "ak = dict_get (doc_access_key st) (getenv ''MINIO_ACCESS_KEY'')"
      and "sk = dict_get (doc_secret_key st)
                  (py_or (getenv ''MINIO_SECRET_KEY'') (getenv ''MINIO_SECRET_ACCESS_KEY''))"
      and "\<not> (truthy ak \<and> truthy sk)"
  shows "\<exists>m. from_dict d getenv = Inl (Exc ValueError m)"
  using assms by (auto simp add: from_dict_def Let_def)

text \<open>A key that is absent or holds a value resolves as the specification has it.\<close>

lemma explicit_else_dict_get:
  "key_absent_or_value k \<Longrightarrow> dict_get k from_env = explicit_else k from_env"
  by (cases k) (auto simp: key_absent_or_value_def dict_get_def explicit_else_def
      split: option.splits)

text \<open>
  Claim C4, as amended. On the bootstrap path, for a document and an environment in
  which every credential source is either absent or a non-empty value, each credential
  follows the precedence: the explicit value of the configuration key, else the
  environment variable (\<open>MINIO_ACCESS_KEY\<close>; \<open>MINIO_SECRET_KEY\<close>, then
  \<open>MINIO_SECRET_ACCESS_KEY\<close>), else failure. When each credential is present in either
  source \<open>from_dict\<close> succeeds with the values so resolved; when one is absent from
  both it raises \<open>ValueError\<close>, and \<open>cmd_attach\<close> and \<open>cmd_load_tpch\<close> end with that
  exception without a single call to the engine, the file system or the network.
\<close>

theorem from_dict_follows_precedence:
  assumes "st = dict_get (sec_storage d) empty_storage"
      and "key_absent_or_value (doc_access_key st)"
      and "key_absent_or_value (doc_secret_key st)"
      and "env_absent_or_value (getenv ''MINIO_ACCESS_KEY'')"
      and "env_absent_or_value (getenv ''MINIO_SECRET_KEY'')"
      and "env_absent_or_value (getenv ''MINIO_SECRET_ACCESS_KEY'')"
      and "ak = explicit_else (doc_access_key st) (getenv ''MINIO_ACCESS_KEY'')"
      and "sk = explicit_else (doc_secret_key st)
                  (case getenv ''MINIO_SECRET_KEY'' of
                     Some v \<Rightarrow> Some v | None \<Rightarrow> getenv ''MINIO_SECRET_ACCESS_KEY'')"
  shows "(ak \<noteq> None \<and> sk \<noteq> None \<longrightarrow>
            (\<exists>cfg. from_dict d getenv = Inr cfg
               \<and> access_key (storage cfg) = ak \<and> secret_key (storage cfg) = sk))
       \<and> (ak = None \<or> sk = None \<longrightarrow>
            (\<exists>m. from_dict d getenv = Inl (Exc ValueError m)
               \<and> cmd_attach w d getenv tr = Some (Some (Exc ValueError m), tr)
               \<and> cmd_load_tpch w d getenv scale_arg tr = Some (Some (Exc ValueError m), tr)))"
proof -
  have env: "py_or (getenv ''MINIO_SECRET_KEY'') (getenv ''MINIO_SECRET_ACCESS_KEY'')
      = (case getenv ''MINIO_SECRET_KEY'' of
           Some v \<Rightarrow> Some v | None \<Rightarrow> getenv ''MINIO_SECRET_ACCESS_KEY'')"
    using assms(5) by (auto simp: py_or_def env_absent_or_value_def split: option.splits)
  have ak: "ak = dict_get (doc_access_key st) (getenv ''MINIO_ACCESS_KEY'')"
    using assms(2,7) by (simp add: explicit_else_dict_get)
  have sk: "sk = dict_get (doc_secret_key st)
                  (py_or (getenv ''MINIO_SECRET_KEY'') (getenv ''MINIO_SECRET_ACCESS_KEY''))"
    using assms(3,8) by (simp add: explicit_else_dict_get env)
  have tak: "truthy ak \<longleftrightarrow> ak \<noteq> None"
    using assms(2,4,7)
    by (auto simp: explicit_else_def key_absent_or_value_def env_absent_or_value_def
        split: option.splits)
  have tsk: "truthy sk \<longleftrightarrow> sk \<noteq> None"
    using assms(3,5,6,8)
    by (auto simp: explicit_else_def key_absent_or_value_def env_absent_or_value_def
        split: option.splits)
  have good: "\<exists>cfg. from_dict d getenv = Inr cfg
               \<and> access_key (storage cfg) = ak \<and> secret_key (storage cfg) = sk"
    if "ak \<noteq> None \<and> sk \<noteq> None"
    using from_dict_ok [OF assms(1) ak sk] that tak tsk by simp
  have bad: "\<exists>m. from_dict d getenv = Inl (Exc ValueError m)
               \<and> cmd_attach w d getenv tr = Some (Some (Exc ValueError m), tr)
               \<and> cmd_load_tpch w d getenv scale_arg tr = Some (Some (Exc ValueError m), tr)"
    if n: "ak = None \<or> sk = None"
  proof -
    from n tak tsk have "\<not> (truthy ak \<and> truthy sk)" by auto
    from from_dict_raises [OF assms(1) ak sk this] obtain m where
      m: "from_dict d getenv = Inl (Exc ValueError m)" by blast
    then show ?thesis by (simp add: cmd_attach_def cmd_load_tpch_def)
  qed
  from good bad show ?thesis by blast
qed

text \<open>Facts about the starter document.\<close>

lemma replace_localhost:
  "py_replace ''https://'' [] (py_replace ''http://'' [] ''http://localhost:9000'') = ''localhost:9000''"
  by (simp add: py_replace.simps)

lemma from_dict_starter_no_env:
  "from_dict starter_doc no_env = Inl (Exc ValueError
     ''storage.access_key is required but was not provided in config or environment variables'')"
  by (simp add: from_dict_def starter_doc_def no_env_def dict_get_def py_or_def Let_def)

lemma minio_env_values:
  "env_absent_or_value (minio_env ''MINIO_ACCESS_KEY'')
   \<and> env_absent_or_value (minio_env ''MINIO_SECRET_KEY'')
   \<and> env_absent_or_value (minio_env ''MINIO_SECRET_ACCESS_KEY'')"
  by (simp add: minio_env_def env_absent_or_value_def)

lemma no_env_values: "env_absent_or_value (no_env var)"
  by (simp add: no_env_def env_absent_or_value_def)

text \<open>
  The starter document holds no credentials. With an explicit \<open>access_key\<close> added and
  credentials in the environment, the explicit value is taken and the secret comes from
  the environment; with the environment alone \<open>from_dict\<close> succeeds with its values;
  with an empty environment both commands stop before any call.
\<close>

theorem from_dict_follows_precedence_witness:
  "key_absent_or_value (doc_access_key (the (sec_storage explicit_key_doc)))
   \<and> key_absent_or_value (doc_secret_key (the (sec_storage explicit_key_doc)))
   \<and> key_absent_or_value (doc_access_key (the (sec_storage starter_doc)))
   \<and> key_absent_or_value (doc_secret_key (the (sec_storage starter_doc)))
   \<and> env_absent_or_value (minio_env ''MINIO_ACCESS_KEY'')
   \<and> env_absent_or_value (minio_env ''MINIO_SECRET_KEY'')
   \<and> env_absent_or_value (minio_env ''MINIO_SECRET_ACCESS_KEY'')
   \<and> (\<exists>cfg. from_dict explicit_key_doc minio_env = Inr cfg
         \<and> access_key (storage cfg) = Some ''config-key''
         \<and> secret_key (storage cfg) = Some ''minio-secret'')
   \<and> (\<exists>cfg. from_dict starter_doc minio_env = Inr cfg
         \<and> access_key (storage cfg) = Some ''minioadmin''
         \<and> secret_key (storage cfg) = Some ''minio-secret'')
   \<and> (\<exists>m. from_dict starter_doc no_env = Inl (Exc ValueError m)
         \<and> cmd_attach quiet_world starter_doc no_env [] = Some (Some (Exc ValueError m), [])
         \<and> cmd_load_tpch quiet_world starter_doc no_env None [] = Some (Some (Exc ValueError m), []))"
proof -
  let ?se = "the (sec_storage explicit_key_doc)" and ?ss = "the (sec_storage starter_doc)"
  have ste: "?se = dict_get (sec_storage explicit_key_doc) empty_storage"
    by (simp add: explicit_key_doc_def dict_get_def)
  have sts: "?ss = dict_get (sec_storage starter_doc) empty_storage"
    by (simp add: starter_doc_def dict_get_def)
  have ke: "key_absent_or_value (doc_access_key ?se)" "key_absent_or_value (doc_secret_key ?se)"
    by (simp_all add: explicit_key_doc_def starter_doc_def key_absent_or_value_def)
  have ks: "key_absent_or_value (doc_access_key ?ss)" "key_absent_or_value (doc_secret_key ?ss)"
    by (simp_all add: starter_doc_def key_absent_or_value_def)
  have em: "env_absent_or_value (minio_env ''MINIO_ACCESS_KEY'')"
    "env_absent_or_value (minio_env ''MINIO_SECRET_KEY'')"
    "env_absent_or_value (minio_env ''MINIO_SECRET_ACCESS_KEY'')"
    using minio_env_values by simp_all
  have ae: "Some ''config-key'' = explicit_else (doc_access_key ?se) (minio_env ''MINIO_ACCESS_KEY'')"
    by (simp add: explicit_key_doc_def starter_doc_def explicit_else_def)
  have se: "Some ''minio-secret'' = explicit_else (doc_secret_key ?se)
      (case minio_env ''MINIO_SECRET_KEY'' of
         Some v \<Rightarrow> Some v | None \<Rightarrow> minio_env ''MINIO_SECRET_ACCESS_KEY'')"
    by (simp add: explicit_key_doc_def starter_doc_def explicit_else_def minio_env_def)
  have as: "Some ''minioadmin'' = explicit_else (doc_access_key ?ss) (minio_env ''MINIO_ACCESS_KEY'')"
    by (simp add: starter_doc_def explicit_else_def minio_env_def)
  have ss: "Some ''minio-secret'' = explicit_else (doc_secret_key ?ss)
      (case minio_env ''MINIO_SECRET_KEY'' of
         Some v \<Rightarrow> Some v | None \<Rightarrow> minio_env ''MINIO_SECRET_ACCESS_KEY'')"
    by (simp add: starter_doc_def explicit_else_def minio_env_def)
  have an: "None = explicit_else (doc_access_key ?ss) (no_env ''MINIO_ACCESS_KEY'')"
    by (simp add: starter_doc_def explicit_else_def no_env_def)
  have sn: "None = explicit_else (doc_secret_key ?ss)
      (case no_env ''MINIO_SECRET_KEY'' of
         Some v \<Rightarrow> Some v | None \<Rightarrow> no_env ''MINIO_SECRET_ACCESS_KEY'')"
    by (simp add: starter_doc_def explicit_else_def no_env_def)
  from from_dict_follows_precedence [OF ste ke em ae se, THEN conjunct1]
  have e: "\<exists>cfg. from_dict explicit_key_doc minio_env = Inr cfg
         \<and> access_key (storage cfg) = Some ''config-key''
         \<and> secret_key (storage cfg) = Some ''minio-secret''"
    by simp
  from from_dict_follows_precedence [OF sts ks em as ss, THEN conjunct1]
  have s: "\<exists>cfg. from_dict starter_doc minio_env = Inr cfg
         \<and> access_key (storage cfg) = Some ''minioadmin''
         \<and> secret_key (storage cfg) = Some ''minio-secret''"
    by simp
  from from_dict_follows_precedence
    [OF sts ks no_env_values no_env_values no_env_values an sn,
     of quiet_world "[]" None, THEN conjunct2]
  have n: "\<exists>m. from_dict starter_doc no_env = Inl (Exc ValueError m)
         \<and> cmd_attach quiet_world starter_doc no_env [] = Some (Some (Exc ValueError m), [])
         \<and> cmd_load_tpch quiet_world starter_doc no_env None [] = Some (Some (Exc ValueError m), [])"
    by simp
  from ke ks em e s n show ?thesis by blast
qed

text \<open>
  Outside the property above: a key that is present and left blank is not followed by
  the environment. With \<open>access_key\<close> blank and \<open>MINIO_ACCESS_KEY\<close> set, \<open>from_dict\<close>
  raises, with a message that names the environment as searched.
\<close>

lemma blank_key_hides_environment:
  "minio_env ''MINIO_ACCESS_KEY'' = Some ''minioadmin''
   \<and> from_dict blank_key_doc minio_env = Inl (Exc ValueError
       ''storage.access_key is required but was not provided in config or environment variables'')"
  by (simp add: from_dict_def blank_key_doc_def starter_doc_def minio_env_def dict_get_def
      py_or_def Let_def)

text \<open>
  Claim C4 as stated fails on the validator's path. For the starter document and an
  empty environment, where \<open>from_dict\<close> raises, \<open>open_ducklake\<close> raises nothing: it
  never consults the environment and opens the session with the default credentials
  \<open>minioadmin\<close>.
\<close>

theorem validator_defaults_missing_credentials:
  "doc_access_key (the (sec_storage starter_doc)) = None
   \<and> doc_secret_key (the (sec_storage starter_doc)) = None
   \<and> from_dict starter_doc no_env = Inl (Exc ValueError
        ''storage.access_key is required but was not provided in config or environment variables'')
   \<and> open_ducklake quiet_world starter_doc [] =
       (None,
        [Connect LakeCon '':memory:'',
         Execute LakeCon ''INSTALL httpfs; LOAD httpfs;'',
         Execute LakeCon ''INSTALL aws; LOAD aws;'',
         Execute LakeCon ''INSTALL ducklake; LOAD ducklake;'',
         Execute LakeCon (validator_secret_sql (the (sec_storage starter_doc)) ''http://localhost:9000''),
         Execute LakeCon
           ''ATTACH 'ducklake:./metadata.ducklake' AS my_ducklake (DATA_PATH 's3://ducklake-data/tpch/');'',
         Execute LakeCon ''USE my_ducklake;''])
   \<and> validator_secret_sql (the (sec_storage starter_doc)) ''http://localhost:9000'' =
        nl @ ''        CREATE OR REPLACE SECRET minio ('' @ nl
        @ ''          TYPE S3,'' @ nl
        @ ''          KEY_ID 'minioadmin','' @ nl
        @ ''          SECRET 'minioadmin','' @ nl
        @ ''          ENDPOINT 'localhost:9000','' @ nl
        @ ''          URL_STYLE 'path','' @ nl
        @ ''          USE_SSL false,'' @ nl
        @ ''          REGION '' @ quoted ''us-east-1'' @ nl
        @ ''        );'' @ nl
        @ ''    ''"
proof -
  have keys: "doc_access_key (the (sec_storage starter_doc)) = None
      \<and> doc_secret_key (the (sec_storage starter_doc)) = None"
    by (simp add: starter_doc_def)
  have f: "\<And>tr ev. fails quiet_world tr ev = None"
    by (simp add: quiet_world_def)
  have opened: "open_ducklake quiet_world starter_doc [] =
       (None,
        [Connect LakeCon '':memory:'',
         Execute LakeCon ''INSTALL httpfs; LOAD httpfs;'',
         Execute LakeCon ''INSTALL aws; LOAD aws;'',
         Execute LakeCon ''INSTALL ducklake; LOAD ducklake;'',
         Execute LakeCon (validator_secret_sql (the (sec_storage starter_doc)) ''http://localhost:9000''),
         Execute LakeCon
           ''ATTACH 'ducklake:./metadata.ducklake' AS my_ducklake (DATA_PATH 's3://ducklake-data/tpch/');'',
         Execute LakeCon ''USE my_ducklake;''])"
    by (simp add: open_ducklake_def dict_item_def starter_doc_def f quoted_def
        validator_data_path_def)
  have sql_text: "validator_secret_sql (the (sec_storage starter_doc)) ''http://localhost:9000'' =
        nl @ ''        CREATE OR REPLACE SECRET minio ('' @ nl
        @ ''          TYPE S3,'' @ nl
        @ ''          KEY_ID 'minioadmin','' @ nl
        @ ''          SECRET 'minioadmin','' @ nl
        @ ''          ENDPOINT 'localhost:9000','' @ nl
        @ ''          URL_STYLE 'path','' @ nl
        @ ''          USE_SSL false,'' @ nl
        @ ''          REGION '' @ quoted ''us-east-1'' @ nl
        @ ''        );'' @ nl
        @ ''    ''"
    by (simp add: validator_secret_sql_def starter_doc_def dict_get_def quoted_def
        replace_localhost)
  from keys from_dict_starter_no_env opened sql_text show ?thesis by blast
qed

section \<open>The secret statement\<close>

text \<open>\<open>replace\<close> step by step, and on a text without the pattern.\<close>

lemma py_replace_Nil: "old \<noteq> [] \<Longrightarrow> py_replace old new [] = []"
  by (subst py_replace.simps) (simp only: if_False)

lemma py_replace_skip:
  "old \<noteq> [] \<Longrightarrow> \<not> prefix old (c # cs) \<Longrightarrow>
   py_replace old new (c # cs) = c # py_replace old new cs"
  by (subst py_replace.simps) (simp only: if_False)

lemma py_replace_hit:
  "old \<noteq> [] \<Longrightarrow> prefix old (c # cs) \<Longrightarrow>
   py_replace old new (c # cs) = new @ py_replace old new (drop (length old) (c # cs))"
  by (subst py_replace.simps) (simp only: if_False if_True)

lemma py_replace_absent:
  "old \<noteq> [] \<Longrightarrow> \<not> sublist old s \<Longrightarrow> py_replace old new s = s"
proof (induction s)
  case Nil
  then show ?case by (simp add: py_replace_Nil)
next
  case (Cons c cs)
  from Cons.prems(2) have np: "\<not> prefix old (c # cs)"
    using prefix_imp_sublist by blast
  from Cons.prems(2) have "\<not> sublist old cs"
    by (simp add: sublist_Cons_right)
  with Cons.IH Cons.prems(1) have "py_replace old new cs = cs" by simp
  with np Cons.prems(1) show ?case by (simp add: py_replace_skip)
qed

lemma set_py_replace_empty: "old \<noteq> [] \<Longrightarrow> set (py_replace old [] s) \<subseteq> set s"
proof (induction s rule: length_induct)
  case (1 s)
  show ?case
  proof (cases s)
    case Nil
    with 1(2) show ?thesis by (simp add: py_replace_Nil)
  next
    case (Cons c cs)
    show ?thesis
    proof (cases "prefix old (c # cs)")
      case True
      let ?rest = "drop (length old) (c # cs)"
      from 1(2) have "length ?rest < length s" using Cons by simp
      with 1 have "set (py_replace old [] ?rest) \<subseteq> set ?rest" by blast
      also have "\<dots> \<subseteq> set (c # cs)" by (rule set_drop_subset)
      finally show ?thesis using True 1(2) Cons by (simp add: py_replace_hit)
    next
      case False
      from 1 Cons have "set (py_replace old [] cs) \<subseteq> set cs" by simp
      with False 1(2) Cons show ?thesis by (auto simp add: py_replace_skip)
    qed
  qed
qed

text \<open>\<open>format\<close> on a text whose only brace pair is the field \<open>{name}\<close>.\<close>

lemma no_braces_append: "no_braces (a @ b) \<longleftrightarrow> no_braces a \<and> no_braces b"
  by (auto simp: no_braces_def)

lemma no_braces_Cons:
  "no_braces (c # s) \<longleftrightarrow> c \<noteq> CHR ''{'' \<and> c \<noteq> CHR ''}'' \<and> no_braces s"
  by (auto simp: no_braces_def)

lemma no_braces_Nil: "no_braces []"
  by (simp add: no_braces_def)

lemma no_braces_py_replace: "old \<noteq> [] \<Longrightarrow> no_braces s \<Longrightarrow> no_braces (py_replace old [] s)"
  using set_py_replace_empty [of old s] by (auto simp: no_braces_def)

lemma format_name_text:
  "c \<noteq> CHR ''{'' \<Longrightarrow> c \<noteq> CHR ''}'' \<Longrightarrow>
   format_name name (c # cs) = fmt_then ((#) c) (format_name name cs)"
  by (subst format_name.simps) (simp only: if_False)

lemma format_name_plain: "no_braces s \<Longrightarrow> format_name name s = Some (Inr s)"
proof (induction s)
  case Nil
  show ?case by (simp add: format_name.simps)
next
  case (Cons c s)
  then have "c \<noteq> CHR ''{''" "c \<noteq> CHR ''}''" "format_name name s = Some (Inr s)"
    by (simp_all add: no_braces_Cons)
  then show ?case by (simp add: format_name_text fmt_then_def)
qed

lemma format_name_at_field:
  "format_name name (''{name}'' @ post) = fmt_then (\<lambda>r. name @ r) (format_name name post)"
proof -
  have "format_name name (CHR ''{'' # ''name}'' @ post)
      = fmt_then ((@) name) (format_name name (drop 5 (''name}'' @ post)))"
    by (subst format_name.simps) simp
  then show ?thesis by simp
qed

lemma fmt_then_fmt_then: "fmt_then f (fmt_then g r) = fmt_then (\<lambda>x. f (g x)) r"
  by (cases r) (auto simp: fmt_then_def map_sum_def split: sum.splits)

lemma format_name_field:
  "no_braces pre \<Longrightarrow>
   format_name name (pre @ ''{name}'' @ post)
     = fmt_then (\<lambda>r. pre @ name @ r) (format_name name post)"
proof (induction pre)
  case Nil
  show ?case using format_name_at_field [of name post] by simp
next
  case (Cons c pre)
  then have c: "c \<noteq> CHR ''{''" "c \<noteq> CHR ''}''"
    and ih: "format_name name (pre @ ''{name}'' @ post)
               = fmt_then (\<lambda>r. pre @ name @ r) (format_name name post)"
    by (simp_all add: no_braces_Cons)
  have "format_name name ((c # pre) @ ''{name}'' @ post)
      = fmt_then ((#) c) (format_name name (pre @ ''{name}'' @ post))"
    using c format_name_text [of c name "pre @ ''{name}'' @ post"] by simp
  also have "\<dots> = fmt_then ((#) c) (fmt_then (\<lambda>r. pre @ name @ r) (format_name name post))"
    using ih by simp
  also have "\<dots> = fmt_then (\<lambda>r. (c # pre) @ name @ r) (format_name name post)"
    by (simp add: fmt_then_fmt_then)
  finally show ?case .
qed

lemma format_name_one_field:
  "no_braces pre \<Longrightarrow> no_braces post \<Longrightarrow>
   format_name name (pre @ ''{name}'' @ post) = Some (Inr (pre @ name @ post))"
  using format_name_field [of pre name post] format_name_plain [of post name]
  by (simp add: fmt_then_def)

text \<open>The statement \<open>create_secret_sql\<close> builds from values without braces.\<close>

lemma create_secret_sql_plain:
  assumes "access_key self = Some ak" and "ak \<noteq> []"
      and "secret_key self = Some sk" and "sk \<noteq> []"
      and "no_braces ak" and "no_braces sk" and "no_braces (endpoint self)"
      and "no_braces (url_style self)" and "no_braces (region self)"
  shows "create_secret_sql self name =
     Some (Inr (''CREATE OR REPLACE SECRET '' @ name @ '' ('' @ nl
       @ ''  TYPE S3,'' @ nl
       @ ''  KEY_ID '' @ quoted ak @ '','' @ nl
       @ ''  SECRET '' @ quoted sk @ '','' @ nl
       @ ''  ENDPOINT ''
           @ quoted (py_replace ''https://'' [] (py_replace ''http://'' [] (endpoint self)))
           @ '','' @ nl
       @ ''  URL_STYLE '' @ quoted (url_style self) @ '','' @ nl
       @ ''  USE_SSL '' @ (if use_ssl self then ''true'' else ''false'') @ '','' @ nl
       @ ''  REGION '' @ quoted (region self) @ nl
       @ '');''))"
proof -
  let ?e = "py_replace ''https://'' [] (py_replace ''http://'' [] (endpoint self))"
  let ?post = "'' ('' @ nl
       @ ''  TYPE S3,'' @ nl
       @ ''  KEY_ID '' @ quoted ak @ '','' @ nl
       @ ''  SECRET '' @ quoted sk @ '','' @ nl
       @ ''  ENDPOINT '' @ quoted ?e @ '','' @ nl
       @ ''  URL_STYLE '' @ quoted (url_style self) @ '','' @ nl
       @ ''  USE_SSL '' @ (if use_ssl self then ''true'' else ''false'') @ '','' @ nl
       @ ''  REGION '' @ quoted (region self) @ nl
       @ '');''"
  have e: "no_braces ?e"
    using assms(7) by (simp add: no_braces_py_replace)
  have joined: "py_join nl (secret_parts self) = ''CREATE OR REPLACE SECRET '' @ ''{name}'' @ ?post"
    using assms(1-4) by (simp add: secret_parts_def)
  have pre: "no_braces ''CREATE OR REPLACE SECRET ''"
    by (simp add: no_braces_Cons no_braces_Nil)
  have post: "no_braces ?post"
    using assms(5,6,8,9) e
    by (simp add: no_braces_append no_braces_Cons no_braces_Nil nl_def quoted_def)
  have "create_secret_sql self name
      = format_name name (''CREATE OR REPLACE SECRET '' @ ''{name}'' @ ?post)"
    by (simp only: create_secret_sql_def joined)
  also have "\<dots> = Some (Inr (''CREATE OR REPLACE SECRET '' @ name @ ?post))"
    using pre post by (rule format_name_one_field)
  finally show ?thesis .
qed

text \<open>A scheme at the front, followed by a text that holds neither scheme.\<close>

lemma http_not_in_https_front:
  "\<not> sublist ''http://'' h \<Longrightarrow> \<not> sublist ''http://'' (''https://'' @ h)"
  by (simp add: sublist_Cons_right)

lemma leading_scheme_removed:
  assumes "endpoint_v = ''http://'' @ h \<or> endpoint_v = ''https://'' @ h \<or> endpoint_v = h"
      and "\<not> sublist ''http://'' h" and "\<not> sublist ''https://'' h"
  shows "py_replace ''https://'' [] (py_replace ''http://'' [] endpoint_v) = h"
proof -
  have h1: "py_replace ''http://'' [] h = h"
    using assms(2) by (simp add: py_replace_absent)
  have h2: "py_replace ''https://'' [] h = h"
    using assms(3) by (simp add: py_replace_absent)
  have a: "py_replace ''http://'' [] (''http://'' @ h) = h"
    using h1 py_replace_hit [of "''http://''" "CHR ''h''" "''ttp://'' @ h" "[]"] by simp
  have b: "py_replace ''http://'' [] (''https://'' @ h) = ''https://'' @ h"
    using http_not_in_https_front [OF assms(2)] by (simp add: py_replace_absent)
  have c: "py_replace ''https://'' [] (''https://'' @ h) = h"
    using h2 py_replace_hit [of "''https://''" "CHR ''h''" "''ttps://'' @ h" "[]"] by simp
  from assms(1) a b c h1 h2 show ?thesis by auto
qed

text \<open>
  Claim C7, as amended. For a storage section with non-empty credentials whose
  credentials, endpoint, URL style and region hold no brace, \<open>create_secret_sql\<close>
  gives the statement below: it embeds the endpoint with every occurrence of
  \<open>http://\<close> and then of \<open>https://\<close> removed, and the TLS flag as exactly \<open>true\<close> or
  \<open>false\<close>. For an endpoint that is a scheme followed by a text holding neither
  scheme, what is embedded is that text.
\<close>

theorem create_secret_sql_embeds_endpoint:
  assumes "access_key self = Some ak" and "ak \<noteq> []"
      and "secret_key self = Some sk" and "sk \<noteq> []"
      and "no_braces ak" and "no_braces sk" and "no_braces (endpoint self)"
      and "no_braces (url_style self)" and "no_braces (region self)"
  shows "create_secret_sql self name =
     Some (Inr (''CREATE OR REPLACE SECRET '' @ name @ '' ('' @ nl
       @ ''  TYPE S3,'' @ nl
       @ ''  KEY_ID '' @ quoted ak @ '','' @ nl
       @ ''  SECRET '' @ quoted sk @ '','' @ nl
       @ ''  ENDPOINT ''
           @ quoted (py_replace ''https://'' [] (py_replace ''http://'' [] (endpoint self)))
           @ '','' @ nl
       @ ''  URL_STYLE '' @ quoted (url_style self) @ '','' @ nl
       @ ''  USE_SSL '' @ (if use_ssl self then ''true'' else ''false'') @ '','' @ nl
       @ ''  REGION '' @ quoted (region self) @ nl
       @ '');''))
   \<and> (\<forall>h. (endpoint self = ''http://'' @ h \<or> endpoint self = ''https://'' @ h \<or> endpoint self = h)
          \<and> \<not> sublist ''http://'' h \<and> \<not> sublist ''https://'' h
        \<longrightarrow> py_replace ''https://'' [] (py_replace ''http://'' [] (endpoint self)) = h)"
  using create_secret_sql_plain [OF assms] leading_scheme_removed [of "endpoint self"]
  by blast

text \<open>The storage section of the starter document with credentials from the environment.\<close>

lemma no_scheme_in_localhost:
  "\<not> sublist ''http://'' ''localhost:9000'' \<and> \<not> sublist ''https://'' ''localhost:9000''"
  by code_simp

theorem create_secret_sql_embeds_endpoint_witness:
  "access_key (local_storage ''tpch/'' ''http://localhost:9000'') = Some ''minioadmin''
   \<and> secret_key (local_storage ''tpch/'' ''http://localhost:9000'') = Some ''minio-secret''
   \<and> no_braces ''minioadmin'' \<and> no_braces ''minio-secret'' \<and> no_braces ''http://localhost:9000''
   \<and> no_braces ''path'' \<and> no_braces ''us-east-1''
   \<and> create_secret_sql (local_storage ''tpch/'' ''http://localhost:9000'') ''minio'' =
     Some (Inr (''CREATE OR REPLACE SECRET minio ('' @ nl
       @ ''  TYPE S3,'' @ nl
       @ ''  KEY_ID 'minioadmin','' @ nl
       @ ''  SECRET 'minio-secret','' @ nl
       @ ''  ENDPOINT 'localhost:9000','' @ nl
       @ ''  URL_STYLE 'path','' @ nl
       @ ''  USE_SSL false,'' @ nl
       @ ''  REGION '' @ quoted ''us-east-1'' @ nl
       @ '');''))"
proof -
  let ?st = "local_storage ''tpch/'' ''http://localhost:9000''"
  have ak: "access_key ?st = Some ''minioadmin''" and sk: "secret_key ?st = Some ''minio-secret''"
    by (simp_all add: local_storage_def)
  have nb: "no_braces ''minioadmin''" "no_braces ''minio-secret''"
    "no_braces ''http://localhost:9000''" "no_braces ''path''" "no_braces ''us-east-1''"
    by (simp_all add: no_braces_Cons no_braces_Nil)
  have fields: "endpoint ?st = ''http://localhost:9000''" "url_style ?st = ''path''"
    "region ?st = ''us-east-1''" "use_ssl ?st = False"
    by (simp_all add: local_storage_def)
  have nb': "no_braces (endpoint ?st)" "no_braces (url_style ?st)" "no_braces (region ?st)"
    using nb by (simp_all add: fields)
  note t = create_secret_sql_embeds_endpoint
    [OF ak _ sk _ nb(1) nb(2) nb'(1) nb'(2) nb'(3), of "''minio''"]
  have t': "create_secret_sql ?st ''minio'' =
     Some (Inr (''CREATE OR REPLACE SECRET '' @ ''minio'' @ '' ('' @ nl
       @ ''  TYPE S3,'' @ nl
       @ ''  KEY_ID '' @ quoted ''minioadmin'' @ '','' @ nl
       @ ''  SECRET '' @ quoted ''minio-secret'' @ '','' @ nl
       @ ''  ENDPOINT ''
           @ quoted (py_replace ''https://'' [] (py_replace ''http://'' [] (endpoint ?st)))
           @ '','' @ nl
       @ ''  URL_STYLE '' @ quoted (url_style ?st) @ '','' @ nl
       @ ''  USE_SSL '' @ (if use_ssl ?st then ''true'' else ''false'') @ '','' @ nl
       @ ''  REGION '' @ quoted (region ?st) @ nl
       @ '');''))"
    and t'': "\<forall>h. (endpoint ?st = ''http://'' @ h \<or> endpoint ?st = ''https://'' @ h \<or> endpoint ?st = h)
          \<and> \<not> sublist ''http://'' h \<and> \<not> sublist ''https://'' h
        \<longrightarrow> py_replace ''https://'' [] (py_replace ''http://'' [] (endpoint ?st)) = h"
    using t by simp_all
  from t'' no_scheme_in_localhost
  have e: "py_replace ''https://'' [] (py_replace ''http://'' [] ''http://localhost:9000'')
      = ''localhost:9000''"
    by (simp add: fields)
  from t' have "create_secret_sql ?st ''minio'' =
     Some (Inr (''CREATE OR REPLACE SECRET minio ('' @ nl
       @ ''  TYPE S3,'' @ nl
       @ ''  KEY_ID 'minioadmin','' @ nl
       @ ''  SECRET 'minio-secret','' @ nl
       @ ''  ENDPOINT 'localhost:9000','' @ nl
       @ ''  URL_STYLE 'path','' @ nl
       @ ''  USE_SSL false,'' @ nl
       @ ''  REGION '' @ quoted ''us-east-1'' @ nl
       @ '');''))"
    by (simp add: e fields quoted_def)
  with ak sk nb show ?thesis by simp
qed

text \<open>An endpoint with a second scheme further in.\<close>

lemma replace_gateway:
  "py_replace ''https://'' [] (py_replace ''http://'' [] ''http://gateway/http://minio:9000'')
     = ''gateway/minio:9000''"
  by (simp add: py_replace.simps)

lemma gateway_text_lacks_spec_endpoint:
  "\<not> sublist ''gateway/http://minio:9000''
       (''CREATE OR REPLACE SECRET minio ('' @ nl
        @ ''  TYPE S3,'' @ nl
        @ ''  KEY_ID 'minioadmin','' @ nl
        @ ''  SECRET 'minio-secret','' @ nl
        @ ''  ENDPOINT 'gateway/minio:9000','' @ nl
        @ ''  URL_STYLE 'path','' @ nl
        @ ''  USE_SSL false,'' @ nl
        @ ''  REGION '' @ quoted ''us-east-1'' @ nl
        @ '');'')"
  by code_simp

text \<open>
  Claim C7 as stated fails for an endpoint with a scheme further in. Stripping the
  leading scheme of \<open>http://gateway/http://minio:9000\<close> leaves
  \<open>gateway/http://minio:9000\<close>; the statement embeds \<open>gateway/minio:9000\<close> and does
  not contain the former.
\<close>

theorem interior_scheme_is_removed_too:
  "spec_strip_scheme ''http://gateway/http://minio:9000'' = ''gateway/http://minio:9000''
   \<and> create_secret_sql (local_storage ''tpch/'' ''http://gateway/http://minio:9000'') ''minio'' =
       Some (Inr (''CREATE OR REPLACE SECRET minio ('' @ nl
         @ ''  TYPE S3,'' @ nl
         @ ''  KEY_ID 'minioadmin','' @ nl
         @ ''  SECRET 'minio-secret','' @ nl
         @ ''  ENDPOINT 'gateway/minio:9000','' @ nl
         @ ''  URL_STYLE 'path','' @ nl
         @ ''  USE_SSL false,'' @ nl
         @ ''  REGION '' @ quoted ''us-east-1'' @ nl
         @ '');''))
   \<and> \<not> sublist ''gateway/http://minio:9000''
       (''CREATE OR REPLACE SECRET minio ('' @ nl
        @ ''  TYPE S3,'' @ nl
        @ ''  KEY_ID 'minioadmin','' @ nl
        @ ''  SECRET 'minio-secret','' @ nl
        @ ''  ENDPOINT 'gateway/minio:9000','' @ nl
        @ ''  URL_STYLE 'path','' @ nl
        @ ''  USE_SSL false,'' @ nl
        @ ''  REGION '' @ quoted ''us-east-1'' @ nl
        @ '');'')"
proof -
  let ?st = "local_storage ''tpch/'' ''http://gateway/http://minio:9000''"
  have spec: "spec_strip_scheme ''http://gateway/http://minio:9000'' = ''gateway/http://minio:9000''"
    by (simp add: spec_strip_scheme_def)
  have ak: "access_key ?st = Some ''minioadmin''" and sk: "secret_key ?st = Some ''minio-secret''"
    by (simp_all add: local_storage_def)
  have fields: "endpoint ?st = ''http://gateway/http://minio:9000''" "url_style ?st = ''path''"
    "region ?st = ''us-east-1''" "use_ssl ?st = False"
    by (simp_all add: local_storage_def)
  have nb: "no_braces ''minioadmin''" "no_braces ''minio-secret''"
    "no_braces (endpoint ?st)" "no_braces (url_style ?st)" "no_braces (region ?st)"
    by (simp_all add: fields no_braces_Cons no_braces_Nil)
  from create_secret_sql_plain [OF ak _ sk _ nb, of "''minio''"]
  have made: "create_secret_sql ?st ''minio'' =
       Some (Inr (''CREATE OR REPLACE SECRET minio ('' @ nl
         @ ''  TYPE S3,'' @ nl
         @ ''  KEY_ID 'minioadmin','' @ nl
         @ ''  SECRET 'minio-secret','' @ nl
         @ ''  ENDPOINT 'gateway/minio:9000','' @ nl
         @ ''  URL_STYLE 'path','' @ nl
         @ ''  USE_SSL false,'' @ nl
         @ ''  REGION '' @ quoted ''us-east-1'' @ nl
         @ '');''))"
    by (simp add: fields replace_gateway quoted_def)
  from spec made gateway_text_lacks_spec_endpoint show ?thesis by blast
qed

text \<open>A lone closing brace in the secret key: \<open>format\<close> raises and no statement is built.\<close>

lemma brace_in_secret_raises:
  "create_secret_sql
     ((local_storage ''tpch/'' ''http://localhost:9000'')\<lparr>secret_key := Some ''s3cr}et''\<rparr>) ''minio''
   = Some (Inl (Exc ValueError ''Single '}' encountered in format string''))"
  by (simp add: create_secret_sql_def secret_parts_def local_storage_def nl_def quoted_def
      format_name.simps fmt_then_def py_replace.simps)

section \<open>Attaching twice on one session\<close>

text \<open>
  A second run of \<open>attach_ducklake\<close> on the same session issues the same three
  statements again. The secret statement is a \<open>CREATE OR REPLACE\<close>; the attach
  statement is a plain \<open>ATTACH\<close>. Whether the second run raises is decided by what the
  engine answers to the repeated statements: with an engine that accepts them both
  runs succeed, with one that refuses an alias already taken the second run raises.
\<close>

lemma starter_secret_sql:
  "\<exists>sql. create_secret_sql (storage starter_config) ''minio'' = Some (Inr sql)
         \<and> prefix ''CREATE OR REPLACE SECRET minio'' sql"
proof -
  let ?st = "local_storage ''tpch/'' ''http://localhost:9000''"
  have ak: "access_key ?st = Some ''minioadmin''" and sk: "secret_key ?st = Some ''minio-secret''"
    by (simp_all add: local_storage_def)
  have nb: "no_braces ''minioadmin''" "no_braces ''minio-secret''"
    "no_braces (endpoint ?st)" "no_braces (url_style ?st)" "no_braces (region ?st)"
    by (simp_all add: local_storage_def no_braces_Cons no_braces_Nil)
  from create_secret_sql_plain [OF ak _ sk _ nb, of "''minio''"]
  show ?thesis by (simp add: starter_config_def)
qed

lemma starter_attach_sql:
  "attach_sql (metadata starter_config) ''my_ducklake'' (data_path (storage starter_config))
   = ''ATTACH 'ducklake:./metadata.ducklake' AS my_ducklake (DATA_PATH 's3://ducklake-data/tpch/');''"
  by (simp add: attach_sql_def starter_config_def local_storage_def data_path_def py_strip_def
      quoted_def)

lemma attach_twice_accepting_engine:
  "\<exists>tr1 tr2. attach_ducklake quiet_world BootstrapCon starter_config [] = Some (None, tr1)
     \<and> attach_ducklake quiet_world BootstrapCon starter_config tr1 = Some (None, tr2)"
proof -
  from starter_secret_sql obtain sql where
    sql: "create_secret_sql (storage starter_config) ''minio'' = Some (Inr sql)" by blast
  have f: "\<And>tr ev. fails quiet_world tr ev = None"
    by (simp add: quiet_world_def)
  show ?thesis by (simp add: attach_ducklake_def perform_def f sql)
qed

lemma attach_twice_strict_engine:
  "\<exists>tr1 tr2. attach_ducklake strict_attach_world BootstrapCon starter_config [] = Some (None, tr1)
     \<and> attach_ducklake strict_attach_world BootstrapCon starter_config tr1
         = Some (Some alias_taken_error, tr2)"
proof -
  from starter_secret_sql obtain sql where
    sql: "create_secret_sql (storage starter_config) ''minio'' = Some (Inr sql)"
    and pre: "prefix ''CREATE OR REPLACE SECRET minio'' sql" by blast
  from pre obtain rest where rest: "sql = ''CREATE OR REPLACE SECRET minio'' @ rest"
    by (auto simp: prefix_def)
  from sql have sql': "create_secret_sql (storage starter_config) ''minio''
      = Some (Inr (''CREATE OR REPLACE SECRET minio'' @ rest))"
    by (simp add: rest)
  have f: "\<And>tr ev. fails strict_attach_world tr ev =
      (case ev of
          Execute con sql \<Rightarrow>
            if prefix ''ATTACH '' sql \<and> ev \<in> set tr then Some alias_taken_error else None
        | _ \<Rightarrow> None)"
    by (simp add: strict_attach_world_def)
  have al: "catalog_alias (catalog starter_config) = ''my_ducklake''"
    by (simp add: starter_config_def)
  show ?thesis
    by (simp add: attach_ducklake_def perform_def f sql' starter_attach_sql al)
qed

end
